theory Spec2Isabelle
  imports Complex_Main
begin

section \<open>Numbers, vectors and tensors\<close>

text \<open>
  The elasticity example of libMesh (\<^verbatim>\<open>fem_system_ex3/elasticity_system.C\<close>) computes with
  \<^verbatim>\<open>Real\<close> and \<^verbatim>\<open>Number\<close>, both \<^verbatim>\<open>double\<close> in a default build. The development below
  reads them as mathematical reals: it verifies the index bookkeeping and the algebra of
  the assembly kernels, and says nothing about rounding.

  The file is compiled for \<^verbatim>\<open>LIBMESH_DIM = 3\<close> (the assemblers sit under
  \<^verbatim>\<open>#if LIBMESH_DIM > 2\<close>), so a \<^verbatim>\<open>Gradient\<close> or \<^verbatim>\<open>Point\<close> holds three coordinates and a
  \<^verbatim>\<open>Tensor\<close> nine. They are modelled as tables indexed by the coordinate number; the
  coordinates 0, 1 and 2 are the meaningful ones. libMesh asserts \<open>i < 3\<close> in the
  accessors; the assemblers only use indices below \<^verbatim>\<open>_dim\<close>, and every statement about
  them below assumes \<^verbatim>\<open>_dim\<close> at most 3.
\<close>

type_synonym Gradient = "nat \<Rightarrow> real"
type_synonym Tensor = "nat \<Rightarrow> nat \<Rightarrow> real"

text \<open>The default constructors of \<^verbatim>\<open>Gradient\<close> and \<^verbatim>\<open>Tensor\<close> zero every coordinate.\<close>

definition zero_gradient :: Gradient where
  "zero_gradient = (\<lambda>_. 0)"

definition zero_tensor :: Tensor where
  "zero_tensor = (\<lambda>_ _. 0)"

text \<open>\<^verbatim>\<open>Gradient v(x, y, z)\<close>: the constructor from three coordinates.\<close>

definition VectorValue :: "real \<Rightarrow> real \<Rightarrow> real \<Rightarrow> Gradient" where
  "VectorValue x y z = (\<lambda>i. if i = 0 then x else if i = 1 then y else if i = 2 then z else 0)"

text \<open>\<^verbatim>\<open>Tensor t(r0, r1, r2)\<close>: the constructor from three rows.\<close>

definition TensorValue :: "Gradient \<Rightarrow> Gradient \<Rightarrow> Gradient \<Rightarrow> Tensor" where
  "TensorValue r0 r1 r2 =
     (\<lambda>i. if i = 0 then r0 else if i = 1 then r1 else if i = 2 then r2 else zero_gradient)"

text \<open>\<^verbatim>\<open>a * v\<close>, a scalar times a vector, and the coordinate assignment \<^verbatim>\<open>v(i) = x\<close>.\<close>

definition scale_vector :: "real \<Rightarrow> Gradient \<Rightarrow> Gradient" where
  "scale_vector a v = (\<lambda>i. a * v i)"

definition set_coord :: "nat \<Rightarrow> real \<Rightarrow> Gradient \<Rightarrow> Gradient" where
  "set_coord i x v = v(i := x)"

text \<open>\<^verbatim>\<open>tau(i,j) += x\<close>.\<close>

definition tensor_add :: "nat \<Rightarrow> nat \<Rightarrow> real \<Rightarrow> Tensor \<Rightarrow> Tensor" where
  "tensor_add i j x t = t(i := (t i)(j := t i j + x))"

section \<open>The elasticity tensor\<close>

text \<open>
  Modelled from the spec: \<^verbatim>\<open>kronecker_delta\<close> is declared in \<^verbatim>\<open>elasticity_system.h\<close>,
  which is not among the sources; the specification calls it the Kronecker delta.
\<close>

definition kronecker_delta :: "nat \<Rightarrow> nat \<Rightarrow> real" where
  "kronecker_delta i j = (if i = j then 1 else 0)"

text \<open>\<^verbatim>\<open>ElasticitySystem::elasticity_tensor\<close>, with its hard-coded material parameters.\<close>

definition elasticity_tensor :: "nat \<Rightarrow> nat \<Rightarrow> nat \<Rightarrow> nat \<Rightarrow> real" where
  "elasticity_tensor i j k l =
     (let poisson_ratio = 0.3 :: real;
          young_modulus = 100 :: real;
          lambda_1 = (young_modulus * poisson_ratio) / ((1 + poisson_ratio) * (1 - 2 * poisson_ratio));
          lambda_2 = young_modulus / (2 * (1 + poisson_ratio))
      in lambda_1 * kronecker_delta i j * kronecker_delta k l +
         lambda_2 * (kronecker_delta i k * kronecker_delta j l +
                     kronecker_delta i l * kronecker_delta j k))"

text \<open>
  The specification's formula, for any Poisson ratio \<open>\<nu>\<close> and Young modulus \<open>E\<close>: the two
  Lame parameters and the isotropic tensor built from them.
\<close>

definition lame_1 :: "real \<Rightarrow> real \<Rightarrow> real" where
  "lame_1 \<nu> E = E * \<nu> / ((1 + \<nu>) * (1 - 2 * \<nu>))"

definition lame_2 :: "real \<Rightarrow> real \<Rightarrow> real" where
  "lame_2 \<nu> E = E / (2 * (1 + \<nu>))"

definition isotropic_elasticity :: "real \<Rightarrow> real \<Rightarrow> nat \<Rightarrow> nat \<Rightarrow> nat \<Rightarrow> nat \<Rightarrow> real" where
  "isotropic_elasticity \<nu> E i j k l =
     lame_1 \<nu> E * kronecker_delta i j * kronecker_delta k l +
     lame_2 \<nu> E * (kronecker_delta i k * kronecker_delta j l +
                   kronecker_delta i l * kronecker_delta j k)"

section \<open>The assembly context and the system\<close>

text \<open>
  \<^verbatim>\<open>FEBase\<close>: what the basis evaluator hands out. \<^verbatim>\<open>get_JxW()[qp]\<close>, \<^verbatim>\<open>get_phi()[i][qp]\<close>,
  \<^verbatim>\<open>get_dphi()[i][qp]\<close> and \<^verbatim>\<open>get_normals()[qp]\<close> are vectors the framework sizes by the
  quadrature rule and the number of local dofs; they are modelled as tables, and the
  assemblers read them only at the \<open>qp\<close> and \<open>i\<close> their loops run over.
\<close>

record FEBase =
  get_JxW :: "nat \<Rightarrow> real"
  get_phi :: "nat \<Rightarrow> nat \<Rightarrow> real"
  get_dphi :: "nat \<Rightarrow> nat \<Rightarrow> Gradient"
  get_normals :: "nat \<Rightarrow> Gradient"

text \<open>
  \<^verbatim>\<open>FEMContext\<close>: the per-element data the assemblers read, and the two accumulators
  they write. \<open>get_elem_residual c var\<close> is the residual block of variable \<open>var\<close>
  (a \<^verbatim>\<open>DenseSubVector\<close>) and \<open>get_elem_jacobian c var1 var2\<close> the Jacobian block of the pair
  (a \<^verbatim>\<open>DenseSubMatrix\<close>). The blocks are addressed by variable number, as in libMesh, so
  two names for the same variable number are two names for the same block.
\<close>

record FEMContext =
  get_element_fe :: "nat \<Rightarrow> FEBase"
  get_side_fe :: "nat \<Rightarrow> FEBase"
  n_dof_indices :: "nat \<Rightarrow> nat"
  element_qrule_n_points :: nat
  side_qrule_n_points :: nat
  interior_gradient :: "nat \<Rightarrow> nat \<Rightarrow> Gradient"
  interior_accel :: "nat \<Rightarrow> nat \<Rightarrow> real"
  get_elem_solution_derivative :: real
  get_elem_solution_accel_derivative :: real
  side_boundary_ids :: "int set"
  get_elem_residual :: "nat \<Rightarrow> nat \<Rightarrow> real"
  get_elem_jacobian :: "nat \<Rightarrow> nat \<Rightarrow> nat \<Rightarrow> nat \<Rightarrow> real"

definition has_side_boundary_id :: "FEMContext \<Rightarrow> int \<Rightarrow> bool" where
  "has_side_boundary_id c bid = (bid \<in> side_boundary_ids c)"

text \<open>\<^verbatim>\<open>F(i) += x\<close>, \<^verbatim>\<open>F(i) -= x\<close> and \<^verbatim>\<open>K(i,j) += x\<close> on the blocks of the context.\<close>

definition add_residual :: "nat \<Rightarrow> nat \<Rightarrow> real \<Rightarrow> FEMContext \<Rightarrow> FEMContext" where
  "add_residual var i x c =
     c\<lparr>get_elem_residual :=
         (get_elem_residual c)(var := (get_elem_residual c var)(i := get_elem_residual c var i + x))\<rparr>"

definition sub_residual :: "nat \<Rightarrow> nat \<Rightarrow> real \<Rightarrow> FEMContext \<Rightarrow> FEMContext" where
  "sub_residual var i x c =
     c\<lparr>get_elem_residual :=
         (get_elem_residual c)(var := (get_elem_residual c var)(i := get_elem_residual c var i - x))\<rparr>"

definition add_jacobian :: "nat \<Rightarrow> nat \<Rightarrow> nat \<Rightarrow> nat \<Rightarrow> real \<Rightarrow> FEMContext \<Rightarrow> FEMContext" where
  "add_jacobian var1 var2 i j x c =
     c\<lparr>get_elem_jacobian :=
         (get_elem_jacobian c)(var1 := (get_elem_jacobian c var1)(var2 :=
            (get_elem_jacobian c var1 var2)(i :=
               (get_elem_jacobian c var1 var2 i)(j := get_elem_jacobian c var1 var2 i j + x))))\<rparr>"

text \<open>
  What the assemblers never write: the context with both accumulators blanked. Two
  contexts with the same \<open>frame\<close> give the same answer to every read-only query.
\<close>

definition frame :: "FEMContext \<Rightarrow> FEMContext" where
  "frame c = c\<lparr>get_elem_residual := (\<lambda>_ _. 0), get_elem_jacobian := (\<lambda>_ _ _ _. 0)\<rparr>"

text \<open>
  \<^verbatim>\<open>DirichletBoundary\<close>: the boundary ids, the constrained variables, the function and the
  variable-indexing mode. The example only ever passes \<^verbatim>\<open>ZeroFunction<>\<close> and
  \<^verbatim>\<open>LOCAL_VARIABLE_ORDER\<close>.
\<close>

datatype FunctionBase = ZeroFunction

datatype VariableIndexing = SYSTEM_VARIABLE_ORDER | LOCAL_VARIABLE_ORDER

record DirichletBoundary =
  bc_ids :: "int set"
  bc_variables :: "nat list"
  bc_f :: FunctionBase
  bc_f_system_indexing :: VariableIndexing

type_synonym FEType = "nat \<times> nat"

text \<open>
  \<^verbatim>\<open>ElasticitySystem\<close> with the parts of its base classes and of the mesh that the example
  touches. \<open>dim_sys\<close> is the member \<^verbatim>\<open>_dim\<close>, \<open>rho\<close> is \<^verbatim>\<open>_rho\<close>, \<open>fe_type\<close> is \<^verbatim>\<open>_fe_type\<close>.
  \<open>get_second_order_dot_var\<close> is the time solver's map from a displacement variable to
  its rate variable. The six boundary ids named after their role are constants of
  \<^verbatim>\<open>elasticity_system.h\<close>, which is not among the sources: they are parameters here.
  \<open>boundary_ids\<close> are the ids of this processor's part of the mesh and
  \<open>remote_boundary_ids\<close> those of all the other processors.
\<close>

record ElasticitySystem =
  dim_sys :: nat
  rho :: real
  fe_type :: FEType
  u_var :: nat
  v_var :: nat
  w_var :: nat
  get_second_order_dot_var :: "nat \<Rightarrow> nat"
  traction_boundary_id :: int
  pressure_boundary_id :: int
  fixed_u_boundary_id :: int
  fixed_v_boundary_id :: int
  node_boundary_id :: int
  edge_boundary_id :: int
  variable_table :: "(string \<times> FEType) list"
  time_evolving_order :: "nat \<rightharpoonup> nat"
  dirichlet_boundaries :: "DirichletBoundary list"
  boundary_ids :: "int set"
  remote_boundary_ids :: "int set"
  dofs_numbered :: bool

text \<open>The boundary ids defined at the top of \<^verbatim>\<open>elasticity_system.C\<close>.\<close>

definition boundary_id_min_z :: int where "boundary_id_min_z = 0"
definition boundary_id_min_y :: int where "boundary_id_min_y = 1"
definition boundary_id_max_x :: int where "boundary_id_max_x = 2"
definition boundary_id_max_y :: int where "boundary_id_max_y = 3"
definition boundary_id_min_x :: int where "boundary_id_min_x = 4"
definition boundary_id_max_z :: int where "boundary_id_max_z = 5"

section \<open>Variable registration and constraint setup\<close>

text \<open>
  Modelled from the spec: \<^verbatim>\<open>System::add_variable\<close> is framework code that is not among the
  sources. The specification gives \<^verbatim>\<open>add_variable(name, fe_type) -> var_id\<close> and says it
  mutates the variable table: the variable is appended and its position returned.
\<close>

definition add_variable :: "string \<Rightarrow> FEType \<Rightarrow> ElasticitySystem \<Rightarrow> nat \<times> ElasticitySystem" where
  "add_variable name t sys =
     (length (variable_table sys), sys\<lparr>variable_table := variable_table sys @ [(name, t)]\<rparr>)"

text \<open>
  Modelled from the spec: \<^verbatim>\<open>time_evolving(var_id, order)\<close> marks a variable as a
  time-evolving field of the given order.
\<close>

definition time_evolving :: "nat \<Rightarrow> nat \<Rightarrow> ElasticitySystem \<Rightarrow> ElasticitySystem" where
  "time_evolving var order sys = sys\<lparr>time_evolving_order := (time_evolving_order sys)(var \<mapsto> order)\<rparr>"

text \<open>
  Modelled from the spec: \<^verbatim>\<open>comm().set_union(ids)\<close> replaces the set by its union over all
  processors.
\<close>

definition set_union :: "ElasticitySystem \<Rightarrow> int set \<Rightarrow> int set" where
  "set_union sys ids = ids \<union> remote_boundary_ids sys"

text \<open>
  Modelled from the spec: \<^verbatim>\<open>add_dirichlet_boundary\<close> registers one Dirichlet boundary in
  the constraint table of the dof map.
\<close>

definition add_dirichlet_boundary :: "DirichletBoundary \<Rightarrow> ElasticitySystem \<Rightarrow> ElasticitySystem" where
  "add_dirichlet_boundary bc sys = sys\<lparr>dirichlet_boundaries := dirichlet_boundaries sys @ [bc]\<rparr>"

text \<open>
  Modelled from the spec: \<^verbatim>\<open>FEMSystem::init_data\<close>, the framework's own initialisation,
  finalises the numbering of the degrees of freedom.
\<close>

definition FEMSystem_init_data :: "ElasticitySystem \<Rightarrow> ElasticitySystem" where
  "FEMSystem_init_data sys = sys\<lparr>dofs_numbered := True\<rparr>"

text \<open>\<^verbatim>\<open>if (all.count(id)) ids.insert(id);\<close>\<close>

definition insert_if_present :: "int set \<Rightarrow> int \<Rightarrow> int set \<Rightarrow> int set" where
  "insert_if_present all_ids bid ids = (if bid \<in> all_ids then insert bid ids else ids)"

text \<open>
  \<^verbatim>\<open>ElasticitySystem::init_data\<close>, built with \<^verbatim>\<open>LIBMESH_ENABLE_DIRICHLET\<close>, in the two
  parts its body has. First the variables are registered and marked as second-order in
  time.
\<close>

definition init_data_variables :: "ElasticitySystem \<Rightarrow> ElasticitySystem" where
  "init_data_variables sys0 =
     (let (u, s1) = add_variable ''Ux'' (fe_type sys0) sys0;
          s1 = s1\<lparr>u_var := u\<rparr>;
          s2 = (if dim_sys s1 > 1
                then (let (v, s) = add_variable ''Uy'' (fe_type s1) s1 in s\<lparr>v_var := v\<rparr>)
                else s1\<lparr>v_var := u_var s1\<rparr>);
          s3 = (if dim_sys s2 > 2
                then (let (w, s) = add_variable ''Uz'' (fe_type s2) s2 in s\<lparr>w_var := w\<rparr>)
                else s2\<lparr>w_var := v_var s2\<rparr>);
          s4 = time_evolving (u_var s3) 2 s3;
          s5 = time_evolving (v_var s4) 2 s4;
          s6 = time_evolving (w_var s5) 2 s5
      in s6)"

text \<open>
  Then the Dirichlet boundaries are built from the boundary ids of the whole mesh and
  registered: the first one always, the two for a single variable only when their id set
  is not empty.
\<close>

definition init_data_dirichlet :: "ElasticitySystem \<Rightarrow> ElasticitySystem" where
  "init_data_dirichlet s6 =
     (let all_boundary_ids = set_union s6 (boundary_ids s6);
          dirichlet_boundary_ids =
            insert_if_present all_boundary_ids (edge_boundary_id s6)
              (insert_if_present all_boundary_ids (node_boundary_id s6)
                (insert_if_present all_boundary_ids boundary_id_min_x {}));
          dirichlet_u_boundary_ids = insert_if_present all_boundary_ids (fixed_u_boundary_id s6) {};
          dirichlet_v_boundary_ids = insert_if_present all_boundary_ids (fixed_v_boundary_id s6) {};
          u_variable = [u_var s6];
          v_variable = [v_var s6];
          variables = [u_var s6] @ (if dim_sys s6 > 1 then [v_var s6] else [])
                                 @ (if dim_sys s6 > 2 then [w_var s6] else []);
          zf = ZeroFunction;
          dirichlet_bc = \<lparr>bc_ids = dirichlet_boundary_ids, bc_variables = variables,
                          bc_f = zf, bc_f_system_indexing = LOCAL_VARIABLE_ORDER\<rparr>;
          s7 = add_dirichlet_boundary dirichlet_bc s6;
          s8 = (if dirichlet_u_boundary_ids \<noteq> {}
                then add_dirichlet_boundary
                       \<lparr>bc_ids = dirichlet_u_boundary_ids, bc_variables = u_variable,
                        bc_f = zf, bc_f_system_indexing = LOCAL_VARIABLE_ORDER\<rparr> s7
                else s7);
          s9 = (if dirichlet_v_boundary_ids \<noteq> {}
                then add_dirichlet_boundary
                       \<lparr>bc_ids = dirichlet_v_boundary_ids, bc_variables = v_variable,
                        bc_f = zf, bc_f_system_indexing = LOCAL_VARIABLE_ORDER\<rparr> s8
                else s8)
      in s9)"

text \<open>The whole function ends with the parent's initialisation.\<close>

definition init_data :: "ElasticitySystem \<Rightarrow> ElasticitySystem" where
  "init_data sys = FEMSystem_init_data (init_data_dirichlet (init_data_variables sys))"

section \<open>The interior assembler\<close>

text \<open>
  A \<^verbatim>\<open>for\<close> loop over \<open>0, \<dots>, n - 1\<close> is a \<open>fold\<close> over \<open>[0..<n]\<close> of its body, which takes
  the loop variable and the state and returns the state. The assemblers write only the
  two accumulators of the context, so the context is the state. The source binds its
  references (\<^verbatim>\<open>JxW\<close>, \<^verbatim>\<open>phi\<close>, \<^verbatim>\<open>grad_phi\<close>, \<^verbatim>\<open>n_u_dofs\<close>, the rate variables and the blocks
  \<^verbatim>\<open>Fu\<close>, \<^verbatim>\<open>Kuv\<close>, \<dots>) once before the loops; a loop body below looks the same things up in
  the context it is given, where they have not changed.

  The four nested loops that fill \<^verbatim>\<open>tau\<close> from the zero tensor:
  \<^verbatim>\<open>tau(i,j) += elasticity_tensor(i,j,k,l)*grad_U(k,l)\<close>.
\<close>

definition compute_tau :: "nat \<Rightarrow> Tensor \<Rightarrow> Tensor" where
  "compute_tau d grad_U =
     fold (\<lambda>i. fold (\<lambda>j. fold (\<lambda>k. fold (\<lambda>l tau.
         tensor_add i j (elasticity_tensor i j k l * grad_U k l) tau)
       [0..<d]) [0..<d]) [0..<d]) [0..<d] zero_tensor"

text \<open>The body of the loop over \<^verbatim>\<open>beta\<close>: up to nine Jacobian blocks get one term each.\<close>

definition element_jacobian_beta ::
  "ElasticitySystem \<Rightarrow> nat \<Rightarrow> nat \<Rightarrow> nat \<Rightarrow> nat \<Rightarrow> nat \<Rightarrow> FEMContext \<Rightarrow> FEMContext" where
  "element_jacobian_beta sys qp i alpha j beta c =
     (let u_dot_var = get_second_order_dot_var sys (u_var sys);
          v_dot_var = get_second_order_dot_var sys (v_var sys);
          w_dot_var = get_second_order_dot_var sys (w_var sys);
          u_elem_fe = get_element_fe c (u_var sys);
          JxW = get_JxW u_elem_fe;
          grad_phi = get_dphi u_elem_fe;
          c0 = grad_phi j qp beta * get_elem_solution_derivative c;
          dtau_uu = elasticity_tensor 0 alpha 0 beta * c0;
          k1 = add_jacobian u_dot_var (u_var sys) i j (dtau_uu * grad_phi i qp alpha * JxW qp) c;
          k2 = (if dim_sys sys > 1 then
                  (let dtau_uv = elasticity_tensor 0 alpha 1 beta * c0;
                       dtau_vu = elasticity_tensor 1 alpha 0 beta * c0;
                       dtau_vv = elasticity_tensor 1 alpha 1 beta * c0;
                       k_uv = add_jacobian u_dot_var (v_var sys) i j (dtau_uv * grad_phi i qp alpha * JxW qp) k1;
                       k_vu = add_jacobian v_dot_var (u_var sys) i j (dtau_vu * grad_phi i qp alpha * JxW qp) k_uv;
                       k_vv = add_jacobian v_dot_var (v_var sys) i j (dtau_vv * grad_phi i qp alpha * JxW qp) k_vu
                   in k_vv)
                else k1);
          k3 = (if dim_sys sys > 2 then
                  (let dtau_uw = elasticity_tensor 0 alpha 2 beta * c0;
                       dtau_vw = elasticity_tensor 1 alpha 2 beta * c0;
                       dtau_wu = elasticity_tensor 2 alpha 0 beta * c0;
                       dtau_wv = elasticity_tensor 2 alpha 1 beta * c0;
                       dtau_ww = elasticity_tensor 2 alpha 2 beta * c0;
                       k_uw = add_jacobian u_dot_var (w_var sys) i j (dtau_uw * grad_phi i qp alpha * JxW qp) k2;
                       k_vw = add_jacobian v_dot_var (w_var sys) i j (dtau_vw * grad_phi i qp alpha * JxW qp) k_uw;
                       k_wu = add_jacobian w_dot_var (u_var sys) i j (dtau_wu * grad_phi i qp alpha * JxW qp) k_vw;
                       k_wv = add_jacobian w_dot_var (v_var sys) i j (dtau_wv * grad_phi i qp alpha * JxW qp) k_wu;
                       k_ww = add_jacobian w_dot_var (w_var sys) i j (dtau_ww * grad_phi i qp alpha * JxW qp) k_wv
                   in k_ww)
                else k2)
      in k3)"

text \<open>\<^verbatim>\<open>Gradient body_force(0.0, 0.0, -1.0)\<close>, declared before the loops.\<close>

definition body_force :: Gradient where
  "body_force = VectorValue 0 0 (- 1)"

text \<open>
  The body of the loop over \<^verbatim>\<open>alpha\<close>, first half: the three residual updates, each with the
  body force term inside.
\<close>

definition element_alpha_residual ::
  "ElasticitySystem \<Rightarrow> Tensor \<Rightarrow> nat \<Rightarrow> nat \<Rightarrow> nat \<Rightarrow> FEMContext \<Rightarrow> FEMContext" where
  "element_alpha_residual sys tau qp i alpha c =
     (let u_dot_var = get_second_order_dot_var sys (u_var sys);
          v_dot_var = get_second_order_dot_var sys (v_var sys);
          w_dot_var = get_second_order_dot_var sys (w_var sys);
          u_elem_fe = get_element_fe c (u_var sys);
          JxW = get_JxW u_elem_fe;
          phi = get_phi u_elem_fe;
          grad_phi = get_dphi u_elem_fe;
          f1 = add_residual u_dot_var i
                 ((tau 0 alpha * grad_phi i qp alpha - body_force 0 * phi i qp) * JxW qp) c;
          f2 = (if dim_sys sys > 1
                then add_residual v_dot_var i
                       ((tau 1 alpha * grad_phi i qp alpha - body_force 1 * phi i qp) * JxW qp) f1
                else f1);
          f3 = (if dim_sys sys > 2
                then add_residual w_dot_var i
                       ((tau 2 alpha * grad_phi i qp alpha - body_force 2 * phi i qp) * JxW qp) f2
                else f2)
      in f3)"

text \<open>
  The whole body of the loop over \<^verbatim>\<open>alpha\<close>: the residual updates, then the loops over
  \<^verbatim>\<open>j\<close> and \<^verbatim>\<open>beta\<close> when the Jacobian is requested.
\<close>

definition element_alpha ::
  "ElasticitySystem \<Rightarrow> bool \<Rightarrow> Tensor \<Rightarrow> nat \<Rightarrow> nat \<Rightarrow> nat \<Rightarrow> FEMContext \<Rightarrow> FEMContext" where
  "element_alpha sys request_jacobian tau qp i alpha c =
     (let n_u_dofs = n_dof_indices c (u_var sys);
          f = element_alpha_residual sys tau qp i alpha c
      in if request_jacobian
         then fold (\<lambda>j. fold (element_jacobian_beta sys qp i alpha j) [0..<dim_sys sys])
                [0..<n_u_dofs] f
         else f)"

text \<open>The body of the loop over the quadrature points.\<close>

definition element_qp :: "ElasticitySystem \<Rightarrow> bool \<Rightarrow> nat \<Rightarrow> FEMContext \<Rightarrow> FEMContext" where
  "element_qp sys request_jacobian qp c =
     (let n_u_dofs = n_dof_indices c (u_var sys);
          grad_u = interior_gradient c (u_var sys) qp;
          grad_v = (if dim_sys sys > 1 then interior_gradient c (v_var sys) qp else zero_gradient);
          grad_w = (if dim_sys sys > 2 then interior_gradient c (w_var sys) qp else zero_gradient);
          grad_U = TensorValue grad_u grad_v grad_w;
          tau = compute_tau (dim_sys sys) grad_U
      in fold (\<lambda>i. fold (element_alpha sys request_jacobian tau qp i) [0..<dim_sys sys])
           [0..<n_u_dofs] c)"

text \<open>
  \<^verbatim>\<open>ElasticitySystem::element_time_derivative\<close>: the returned flag and the context after
  the call.
\<close>

definition element_time_derivative ::
  "ElasticitySystem \<Rightarrow> bool \<Rightarrow> FEMContext \<Rightarrow> bool \<times> FEMContext" where
  "element_time_derivative sys request_jacobian c =
     (let n_qpoints = element_qrule_n_points c
      in (request_jacobian, fold (element_qp sys request_jacobian) [0..<n_qpoints] c))"

section \<open>The boundary assembler\<close>

text \<open>
  \<^verbatim>\<open>_dim - 1\<close> on \<^verbatim>\<open>unsigned int\<close>: the subtraction wraps for \<^verbatim>\<open>_dim = 0\<close>.
\<close>

definition unsigned_pred :: "nat \<Rightarrow> nat" where
  "unsigned_pred d = (d + 4294967295) mod 4294967296"

text \<open>The body of the loop over the local dofs of a side.\<close>

definition side_dof :: "ElasticitySystem \<Rightarrow> Gradient \<Rightarrow> nat \<Rightarrow> nat \<Rightarrow> FEMContext \<Rightarrow> FEMContext" where
  "side_dof sys traction qp i c =
     (let u_dot_var = get_second_order_dot_var sys (u_var sys);
          v_dot_var = get_second_order_dot_var sys (v_var sys);
          w_dot_var = get_second_order_dot_var sys (w_var sys);
          u_side_fe = get_side_fe c (u_var sys);
          JxW = get_JxW u_side_fe;
          phi = get_phi u_side_fe;
          f1 = sub_residual u_dot_var i (traction 0 * phi i qp * JxW qp) c;
          f2 = (if dim_sys sys > 1
                then sub_residual v_dot_var i (traction 1 * phi i qp * JxW qp) f1 else f1);
          f3 = (if dim_sys sys > 2
                then sub_residual w_dot_var i (traction 2 * phi i qp * JxW qp) f2 else f2)
      in f3)"

text \<open>
  The body of the loop over the quadrature points of a side. The local variable
  \<^verbatim>\<open>traction\<close> lives across the iterations, so it is part of the loop's state.
\<close>

definition side_qp ::
  "ElasticitySystem \<Rightarrow> real \<Rightarrow> bool \<Rightarrow> nat \<Rightarrow> Gradient \<times> FEMContext \<Rightarrow> Gradient \<times> FEMContext" where
  "side_qp sys pressure pressureforce qp st =
     (let c = snd st;
          n_u_dofs = n_dof_indices c (u_var sys);
          normals = get_normals (get_side_fe c (u_var sys));
          traction = (if pressureforce then scale_vector pressure (normals qp) else fst st)
      in (traction, fold (side_dof sys traction qp) [0..<n_u_dofs] c))"

text \<open>\<^verbatim>\<open>ElasticitySystem::side_time_derivative\<close>.\<close>

definition side_time_derivative ::
  "ElasticitySystem \<Rightarrow> bool \<Rightarrow> FEMContext \<Rightarrow> bool \<times> FEMContext" where
  "side_time_derivative sys request_jacobian c =
     (if has_side_boundary_id c (traction_boundary_id sys) \<or>
         has_side_boundary_id c (pressure_boundary_id sys)
      then
        (let n_qpoints = side_qrule_n_points c;
             pressure = 100;
             traction = set_coord (unsigned_pred (dim_sys sys)) (- 1) zero_gradient;
             pressureforce = has_side_boundary_id c (pressure_boundary_id sys)
         in (request_jacobian,
             snd (fold (side_qp sys pressure pressureforce) [0..<n_qpoints] (traction, c))))
      else (request_jacobian, c))"

section \<open>The mass assembler\<close>

text \<open>The body of the loop over \<^verbatim>\<open>j\<close>: the three diagonal blocks.\<close>

definition mass_jacobian_j :: "ElasticitySystem \<Rightarrow> nat \<Rightarrow> nat \<Rightarrow> nat \<Rightarrow> FEMContext \<Rightarrow> FEMContext" where
  "mass_jacobian_j sys qp i j c =
     (let u_dot_var = get_second_order_dot_var sys (u_var sys);
          v_dot_var = get_second_order_dot_var sys (v_var sys);
          w_dot_var = get_second_order_dot_var sys (w_var sys);
          u_elem_fe = get_element_fe c u_dot_var;
          JxW = get_JxW u_elem_fe;
          phi = get_phi u_elem_fe;
          jac_term = rho sys * phi i qp * phi j qp * JxW qp;
          jac_term = jac_term * get_elem_solution_accel_derivative c;
          k1 = add_jacobian u_dot_var u_dot_var i j jac_term c;
          k2 = (if dim_sys sys > 1 then add_jacobian v_dot_var v_dot_var i j jac_term k1 else k1);
          k3 = (if dim_sys sys > 2 then add_jacobian w_dot_var w_dot_var i j jac_term k2 else k2)
      in k3)"

text \<open>The body of the loop over \<^verbatim>\<open>i\<close>, first half: the three residual updates.\<close>

definition mass_dof_residual ::
  "ElasticitySystem \<Rightarrow> real \<Rightarrow> real \<Rightarrow> real \<Rightarrow> nat \<Rightarrow> nat \<Rightarrow> FEMContext \<Rightarrow> FEMContext" where
  "mass_dof_residual sys u_ddot v_ddot w_ddot qp i c =
     (let u_dot_var = get_second_order_dot_var sys (u_var sys);
          v_dot_var = get_second_order_dot_var sys (v_var sys);
          w_dot_var = get_second_order_dot_var sys (w_var sys);
          u_elem_fe = get_element_fe c u_dot_var;
          JxW = get_JxW u_elem_fe;
          phi = get_phi u_elem_fe;
          f1 = add_residual u_dot_var i (rho sys * u_ddot * phi i qp * JxW qp) c;
          f2 = (if dim_sys sys > 1
                then add_residual v_dot_var i (rho sys * v_ddot * phi i qp * JxW qp) f1 else f1);
          f3 = (if dim_sys sys > 2
                then add_residual w_dot_var i (rho sys * w_ddot * phi i qp * JxW qp) f2 else f2)
      in f3)"

text \<open>
  The whole body of the loop over \<^verbatim>\<open>i\<close>: the residual updates, then the loop over \<^verbatim>\<open>j\<close>
  when the Jacobian is requested.
\<close>

definition mass_dof ::
  "ElasticitySystem \<Rightarrow> bool \<Rightarrow> real \<Rightarrow> real \<Rightarrow> real \<Rightarrow> nat \<Rightarrow> nat \<Rightarrow> FEMContext \<Rightarrow> FEMContext" where
  "mass_dof sys request_jacobian u_ddot v_ddot w_ddot qp i c =
     (let u_dot_var = get_second_order_dot_var sys (u_var sys);
          n_u_dofs = n_dof_indices c u_dot_var;
          f = mass_dof_residual sys u_ddot v_ddot w_ddot qp i c
      in if request_jacobian
         then fold (mass_jacobian_j sys qp i) [0..<n_u_dofs] f
         else f)"

text \<open>
  The body of the loop over the quadrature points. \<^verbatim>\<open>v_ddot\<close> and \<^verbatim>\<open>w_ddot\<close> are left
  uninitialised by the source when the dimension is too low; they are not used then, and
  the model puts 0 there.
\<close>

definition mass_qp :: "ElasticitySystem \<Rightarrow> bool \<Rightarrow> nat \<Rightarrow> FEMContext \<Rightarrow> FEMContext" where
  "mass_qp sys request_jacobian qp c =
     (let u_dot_var = get_second_order_dot_var sys (u_var sys);
          v_dot_var = get_second_order_dot_var sys (v_var sys);
          w_dot_var = get_second_order_dot_var sys (w_var sys);
          n_u_dofs = n_dof_indices c u_dot_var;
          u_ddot = interior_accel c u_dot_var qp;
          v_ddot = (if dim_sys sys > 1 then interior_accel c v_dot_var qp else 0);
          w_ddot = (if dim_sys sys > 2 then interior_accel c w_dot_var qp else 0)
      in fold (mass_dof sys request_jacobian u_ddot v_ddot w_ddot qp) [0..<n_u_dofs] c)"

text \<open>\<^verbatim>\<open>ElasticitySystem::mass_residual\<close>.\<close>

definition mass_residual :: "ElasticitySystem \<Rightarrow> bool \<Rightarrow> FEMContext \<Rightarrow> bool \<times> FEMContext" where
  "mass_residual sys request_jacobian c =
     (let n_qpoints = element_qrule_n_points c
      in (request_jacobian, fold (mass_qp sys request_jacobian) [0..<n_qpoints] c))"

section \<open>Notation for the statements\<close>

text \<open>
  The displacement variable of component 0, 1 or 2 (\<^verbatim>\<open>_u_var\<close>, \<^verbatim>\<open>_v_var\<close>, \<^verbatim>\<open>_w_var\<close>) and
  its rate variable, the one that addresses the residual block and the Jacobian row.
\<close>

definition disp_var :: "ElasticitySystem \<Rightarrow> nat \<Rightarrow> nat" where
  "disp_var sys m = (if m = 0 then u_var sys else if m = 1 then v_var sys else w_var sys)"

definition dot_var :: "ElasticitySystem \<Rightarrow> nat \<Rightarrow> nat" where
  "dot_var sys m = get_second_order_dot_var sys (disp_var sys m)"

text \<open>
  The displacement gradient \<open>\<nabla>U(k,l)\<close> at a quadrature point and the stress
  \<open>\<tau>(i,\<alpha>) = \<Sum>\<^sub>k\<^sub>l elasticity(i,\<alpha>,k,l) \<nabla>U(k,l)\<close> over the active dimensions, as the
  specification writes it.
\<close>

definition grad_U_at :: "ElasticitySystem \<Rightarrow> FEMContext \<Rightarrow> nat \<Rightarrow> nat \<Rightarrow> nat \<Rightarrow> real" where
  "grad_U_at sys c qp k l = interior_gradient c (disp_var sys k) qp l"

definition stress :: "ElasticitySystem \<Rightarrow> FEMContext \<Rightarrow> nat \<Rightarrow> nat \<Rightarrow> nat \<Rightarrow> real" where
  "stress sys c qp i a =
     (\<Sum>k<dim_sys sys. \<Sum>l<dim_sys sys. elasticity_tensor i a k l * grad_U_at sys c qp k l)"

text \<open>
  What one pass of the loop over \<^verbatim>\<open>alpha\<close> adds to the residual of component \<open>m\<close> at the
  test dof \<open>i\<close>: \<open>(\<tau>(m,\<alpha>) \<nabla>\<phi>\<^sub>i(\<alpha>) - bodyforce(m) \<phi>\<^sub>i) JxW[qp]\<close>.
\<close>

definition residual_integrand ::
  "ElasticitySystem \<Rightarrow> FEMContext \<Rightarrow> nat \<Rightarrow> nat \<Rightarrow> nat \<Rightarrow> nat \<Rightarrow> real" where
  "residual_integrand sys c qp i m \<alpha> =
     (stress sys c qp m \<alpha> * get_dphi (get_element_fe c (u_var sys)) i qp \<alpha> -
      body_force m * get_phi (get_element_fe c (u_var sys)) i qp) *
     get_JxW (get_element_fe c (u_var sys)) qp"

text \<open>
  What the specification says a quadrature point adds to the residual of component \<open>m\<close>
  at the test dof \<open>i\<close>: \<open>(\<Sum>\<^sub>\<alpha> \<tau>(m,\<alpha>) \<nabla>\<phi>\<^sub>i(\<alpha>) - bodyforce(m) \<phi>\<^sub>i) JxW[qp]\<close>, the body force
  once.
\<close>

definition specified_residual_term ::
  "ElasticitySystem \<Rightarrow> FEMContext \<Rightarrow> nat \<Rightarrow> nat \<Rightarrow> nat \<Rightarrow> real" where
  "specified_residual_term sys c qp i m =
     ((\<Sum>\<alpha><dim_sys sys. stress sys c qp m \<alpha> * get_dphi (get_element_fe c (u_var sys)) i qp \<alpha>) -
      body_force m * get_phi (get_element_fe c (u_var sys)) i qp) *
     get_JxW (get_element_fe c (u_var sys)) qp"

text \<open>A term that counts only when its condition holds.\<close>

definition only_if :: "bool \<Rightarrow> real \<Rightarrow> real" where
  "only_if b x = (if b then x else 0)"

text \<open>
  What the specification lets one pair (component \<open>m\<close>, trial component \<open>m'\<close>) add to
  its Jacobian block at a quadrature point, for the test dof \<open>i\<close>, the trial dof \<open>j\<close> and
  the directions \<open>\<alpha>\<close> and \<open>\<beta>\<close>:
  \<open>elasticity(m,\<alpha>,m',\<beta>) \<nabla>\<phi>\<^sub>j(\<beta>) scale \<nabla>\<phi>\<^sub>i(\<alpha>) JxW[qp]\<close>.
\<close>

definition stiffness_integrand ::
  "ElasticitySystem \<Rightarrow> FEMContext \<Rightarrow> nat \<Rightarrow> nat \<Rightarrow> nat \<Rightarrow> nat \<Rightarrow> nat \<Rightarrow> nat \<Rightarrow> nat \<Rightarrow> real" where
  "stiffness_integrand sys c qp i j m \<alpha> m' \<beta> =
     elasticity_tensor m \<alpha> m' \<beta> * get_dphi (get_element_fe c (u_var sys)) j qp \<beta> *
     get_elem_solution_derivative c * get_dphi (get_element_fe c (u_var sys)) i qp \<alpha> *
     get_JxW (get_element_fe c (u_var sys)) qp"

text \<open>The same, summed over the pairs of components that address the block \<open>(r, cv)\<close>.\<close>

definition stiffness_pairs ::
  "ElasticitySystem \<Rightarrow> FEMContext \<Rightarrow> nat \<Rightarrow> nat \<Rightarrow> nat \<Rightarrow> nat \<Rightarrow> nat \<Rightarrow> nat \<Rightarrow> nat \<Rightarrow> real" where
  "stiffness_pairs sys c r cv qp i j \<alpha> \<beta> =
     (\<Sum>m<dim_sys sys. \<Sum>m'<dim_sys sys.
        only_if (r = dot_var sys m \<and> cv = disp_var sys m')
          (stiffness_integrand sys c qp i j m \<alpha> m' \<beta>))"

text \<open>
  One pass of the loop over \<^verbatim>\<open>alpha\<close>, summed over the components whose rate variable
  is \<open>r\<close>: what the pass adds to the residual block \<open>r\<close> at the dof \<open>i\<close>.
\<close>

definition residual_hits ::
  "ElasticitySystem \<Rightarrow> FEMContext \<Rightarrow> nat \<Rightarrow> nat \<Rightarrow> nat \<Rightarrow> nat \<Rightarrow> real" where
  "residual_hits sys c r qp i \<alpha> =
     (\<Sum>m<dim_sys sys. only_if (r = dot_var sys m) (residual_integrand sys c qp i m \<alpha>))"

text \<open>
  The load the boundary assembler applies at a quadrature point of a side: the pressure
  magnitude 100 times the face normal on a side with the pressure id, and otherwise the
  default traction, \<open>-1\<close> along the last active dimension.
\<close>

definition side_load :: "ElasticitySystem \<Rightarrow> FEMContext \<Rightarrow> nat \<Rightarrow> Gradient" where
  "side_load sys c qp =
     (if has_side_boundary_id c (pressure_boundary_id sys)
      then scale_vector 100 (get_normals (get_side_fe c (u_var sys)) qp)
      else set_coord (unsigned_pred (dim_sys sys)) (- 1) zero_gradient)"

text \<open>\<open>load(m) \<phi>\<^sub>i JxW[qp]\<close> on the side, for a load vector.\<close>

definition side_term :: "ElasticitySystem \<Rightarrow> FEMContext \<Rightarrow> Gradient \<Rightarrow> nat \<Rightarrow> nat \<Rightarrow> nat \<Rightarrow> real" where
  "side_term sys c load qp i m =
     load m * get_phi (get_side_fe c (u_var sys)) i qp * get_JxW (get_side_fe c (u_var sys)) qp"

text \<open>
  The mass assembler takes its shape functions and its dof count from the rate variable
  of the first component. \<open>\<rho> accel(m) \<phi>\<^sub>i JxW[qp]\<close> and \<open>\<rho> \<phi>\<^sub>i \<phi>\<^sub>j JxW[qp] accel_scale\<close>:
\<close>

definition mass_residual_term :: "ElasticitySystem \<Rightarrow> FEMContext \<Rightarrow> nat \<Rightarrow> nat \<Rightarrow> nat \<Rightarrow> real" where
  "mass_residual_term sys c qp i m =
     rho sys * interior_accel c (dot_var sys m) qp *
     get_phi (get_element_fe c (dot_var sys 0)) i qp * get_JxW (get_element_fe c (dot_var sys 0)) qp"

definition mass_jacobian_term :: "ElasticitySystem \<Rightarrow> FEMContext \<Rightarrow> nat \<Rightarrow> nat \<Rightarrow> nat \<Rightarrow> real" where
  "mass_jacobian_term sys c qp i j =
     rho sys * get_phi (get_element_fe c (dot_var sys 0)) i qp *
     get_phi (get_element_fe c (dot_var sys 0)) j qp * get_JxW (get_element_fe c (dot_var sys 0)) qp *
     get_elem_solution_accel_derivative c"

section \<open>Concrete inputs\<close>

text \<open>
  A three-dimensional system after initialisation, on a second-order time solver (the
  rate variable of a displacement variable is the variable itself), with the boundary ids
  of the example's header.
\<close>

definition example_system :: ElasticitySystem where
  "example_system =
     \<lparr>dim_sys = 3, rho = 2, fe_type = (1, 0), u_var = 0, v_var = 1, w_var = 2,
      get_second_order_dot_var = (\<lambda>var. var),
      traction_boundary_id = 30, pressure_boundary_id = 31,
      fixed_u_boundary_id = 32, fixed_v_boundary_id = 33,
      node_boundary_id = 10, edge_boundary_id = 20,
      variable_table = [(''Ux'', (1, 0)), (''Uy'', (1, 0)), (''Uz'', (1, 0))],
      time_evolving_order = [0 \<mapsto> 2, 1 \<mapsto> 2, 2 \<mapsto> 2],
      dirichlet_boundaries = [],
      boundary_ids = {}, remote_boundary_ids = {}, dofs_numbered = True\<rparr>"

text \<open>
  A system before initialisation, of dimension \<open>d\<close>, on a mesh whose boundary ids are
  \<open>ids\<close> on this processor and none elsewhere.
\<close>

definition fresh_system :: "nat \<Rightarrow> int set \<Rightarrow> ElasticitySystem" where
  "fresh_system d ids =
     \<lparr>dim_sys = d, rho = 1, fe_type = (1, 0), u_var = 0, v_var = 0, w_var = 0,
      get_second_order_dot_var = (\<lambda>var. var),
      traction_boundary_id = 30, pressure_boundary_id = 31,
      fixed_u_boundary_id = 32, fixed_v_boundary_id = 33,
      node_boundary_id = 10, edge_boundary_id = 20,
      variable_table = [],
      time_evolving_order = Map.empty,
      dirichlet_boundaries = [],
      boundary_ids = ids, remote_boundary_ids = {}, dofs_numbered = False\<rparr>"

text \<open>
  An element with one quadrature point of weight 1 and one local dof per variable, whose
  shape function has the value 1 and the gradient \<open>(1, 0, 0)\<close> there; the face normal is
  \<open>(0, 0, 1)\<close>. The displacement is at rest (zero gradient), the acceleration is 3, both
  scale factors of the time solver are 1, and both accumulators start at zero. The side
  carries the boundary ids \<open>ids\<close>.
\<close>

definition example_fe :: FEBase where
  "example_fe =
     \<lparr>get_JxW = (\<lambda>qp. 1), get_phi = (\<lambda>i qp. 1), get_dphi = (\<lambda>i qp. VectorValue 1 0 0),
      get_normals = (\<lambda>qp. VectorValue 0 0 1)\<rparr>"

definition example_context :: "int set \<Rightarrow> FEMContext" where
  "example_context ids =
     \<lparr>get_element_fe = (\<lambda>var. example_fe), get_side_fe = (\<lambda>var. example_fe),
      n_dof_indices = (\<lambda>var. 1), element_qrule_n_points = 1, side_qrule_n_points = 1,
      interior_gradient = (\<lambda>var qp. zero_gradient), interior_accel = (\<lambda>var qp. 3),
      get_elem_solution_derivative = 1, get_elem_solution_accel_derivative = 1,
      side_boundary_ids = ids,
      get_elem_residual = (\<lambda>var i. 0), get_elem_jacobian = (\<lambda>var1 var2 i j. 0)\<rparr>"

text \<open>The same element under the uniform stretch \<open>\<nabla>u = (1, 0, 0)\<close> of the first component.\<close>

definition stretched_context :: FEMContext where
  "stretched_context =
     (example_context {})\<lparr>interior_gradient :=
        (\<lambda>var qp. if var = 0 then VectorValue 1 0 0 else zero_gradient)\<rparr>"

text \<open>
  The stretched element again, with a shape function whose gradient \<open>(1, 2, 3)\<close> has no
  zero coordinate, so that the blocks coupling two different components are not zero.
\<close>

definition skew_fe :: FEBase where
  "skew_fe = example_fe\<lparr>get_dphi := (\<lambda>i qp. VectorValue 1 2 3)\<rparr>"

definition skew_context :: FEMContext where
  "skew_context = stretched_context\<lparr>get_element_fe := (\<lambda>var. skew_fe)\<rparr>"

section \<open>Properties of the elasticity tensor\<close>

lemma lame_values: "lame_1 0.3 100 = 750 / 13" "lame_2 0.3 100 = 500 / 13"
  by (simp_all add: lame_1_def lame_2_def)

text \<open>
  Claim C3. For all indices, \<open>elasticity_tensor i j k l\<close> is the value of the isotropic
  formula \<open>\<lambda>\<^sub>1 \<delta>(i,j) \<delta>(k,l) + \<lambda>\<^sub>2 (\<delta>(i,k) \<delta>(j,l) + \<delta>(i,l) \<delta>(j,k))\<close> with
  \<open>\<lambda>\<^sub>1 = E\<nu>/((1+\<nu>)(1-2\<nu>))\<close> and \<open>\<lambda>\<^sub>2 = E/(2(1+\<nu>))\<close> at \<open>\<nu> = 0.3\<close> and \<open>E = 100\<close>. It is a
  function of its four indices alone: it reads and writes no state.
\<close>

theorem elasticity_tensor_isotropic:
  "elasticity_tensor i j k l = isotropic_elasticity 0.3 100 i j k l"
  by (simp add: elasticity_tensor_def isotropic_elasticity_def lame_1_def lame_2_def Let_def)

text \<open>The values the specification quotes, and the symmetries of the tensor.\<close>

lemma elasticity_tensor_values:
  "elasticity_tensor 0 0 0 0 = 1750 / 13"
  "elasticity_tensor 0 1 0 1 = 500 / 13"
  "elasticity_tensor 0 0 1 1 = 750 / 13"
  by (simp_all add: elasticity_tensor_def kronecker_delta_def Let_def)

lemma elasticity_tensor_symmetric:
  "elasticity_tensor i j k l = elasticity_tensor j i k l"
  "elasticity_tensor i j k l = elasticity_tensor i j l k"
  "elasticity_tensor i j k l = elasticity_tensor k l i j"
  by (auto simp add: elasticity_tensor_def kronecker_delta_def Let_def)

section \<open>Accumulators and loops\<close>

lemma only_if_simps [simp]: "only_if True x = x" "only_if False x = 0" "only_if b 0 = 0"
  by (simp_all add: only_if_def)

lemma sum_only_if [simp]: "(\<Sum>a\<in>A. only_if b (f a)) = only_if b (\<Sum>a\<in>A. f a)"
  by (simp add: only_if_def)

lemma frame_add_residual [simp]: "frame (add_residual v i x c) = frame c"
  by (simp add: frame_def add_residual_def)

lemma frame_sub_residual [simp]: "frame (sub_residual v i x c) = frame c"
  by (simp add: frame_def sub_residual_def)

lemma frame_add_jacobian [simp]: "frame (add_jacobian v1 v2 i j x c) = frame c"
  by (simp add: frame_def add_jacobian_def)

lemma residual_add_residual:
  "get_elem_residual (add_residual v i x c) r i' =
     get_elem_residual c r i' + only_if (i = i') (only_if (r = v) x)"
  by (simp add: add_residual_def only_if_def)

lemma residual_sub_residual:
  "get_elem_residual (sub_residual v i x c) r i' =
     get_elem_residual c r i' - only_if (i = i') (only_if (r = v) x)"
  by (simp add: sub_residual_def only_if_def)

lemma residual_add_jacobian [simp]:
  "get_elem_residual (add_jacobian v1 v2 i j x c) = get_elem_residual c"
  by (simp add: add_jacobian_def)

lemma jacobian_add_residual [simp]:
  "get_elem_jacobian (add_residual v i x c) = get_elem_jacobian c"
  by (simp add: add_residual_def)

lemma jacobian_sub_residual [simp]:
  "get_elem_jacobian (sub_residual v i x c) = get_elem_jacobian c"
  by (simp add: sub_residual_def)

lemma jacobian_add_jacobian:
  "get_elem_jacobian (add_jacobian v1 v2 i j x c) r cv i' j' =
     get_elem_jacobian c r cv i' j' + only_if (i' = i \<and> j' = j) (only_if (r = v1 \<and> cv = v2) x)"
  by (simp add: add_jacobian_def only_if_def)

lemma frame_reads:
  assumes "frame s = frame c"
  shows "get_element_fe s = get_element_fe c" "get_side_fe s = get_side_fe c"
    "n_dof_indices s = n_dof_indices c" "element_qrule_n_points s = element_qrule_n_points c"
    "side_qrule_n_points s = side_qrule_n_points c" "interior_gradient s = interior_gradient c"
    "interior_accel s = interior_accel c"
    "get_elem_solution_derivative s = get_elem_solution_derivative c"
    "get_elem_solution_accel_derivative s = get_elem_solution_accel_derivative c"
    "side_boundary_ids s = side_boundary_ids c"
proof -
  have "get_element_fe (frame s) = get_element_fe (frame c)" using assms by simp
  then show "get_element_fe s = get_element_fe c" by (simp add: frame_def)
  have "get_side_fe (frame s) = get_side_fe (frame c)" using assms by simp
  then show "get_side_fe s = get_side_fe c" by (simp add: frame_def)
  have "n_dof_indices (frame s) = n_dof_indices (frame c)" using assms by simp
  then show "n_dof_indices s = n_dof_indices c" by (simp add: frame_def)
  have "element_qrule_n_points (frame s) = element_qrule_n_points (frame c)" using assms by simp
  then show "element_qrule_n_points s = element_qrule_n_points c" by (simp add: frame_def)
  have "side_qrule_n_points (frame s) = side_qrule_n_points (frame c)" using assms by simp
  then show "side_qrule_n_points s = side_qrule_n_points c" by (simp add: frame_def)
  have "interior_gradient (frame s) = interior_gradient (frame c)" using assms by simp
  then show "interior_gradient s = interior_gradient c" by (simp add: frame_def)
  have "interior_accel (frame s) = interior_accel (frame c)" using assms by simp
  then show "interior_accel s = interior_accel c" by (simp add: frame_def)
  have "get_elem_solution_derivative (frame s) = get_elem_solution_derivative (frame c)"
    using assms by simp
  then show "get_elem_solution_derivative s = get_elem_solution_derivative c"
    by (simp add: frame_def)
  have "get_elem_solution_accel_derivative (frame s) = get_elem_solution_accel_derivative (frame c)"
    using assms by simp
  then show "get_elem_solution_accel_derivative s = get_elem_solution_accel_derivative c"
    by (simp add: frame_def)
  have "side_boundary_ids (frame s) = side_boundary_ids (frame c)" using assms by simp
  then show "side_boundary_ids s = side_boundary_ids c" by (simp add: frame_def)
qed

text \<open>
  A loop whose body adds \<open>D a\<close> to the observed cell \<open>p\<close>, and keeps an invariant \<open>I\<close>,
  adds the sum of the \<open>D a\<close>.
\<close>

lemma fold_accumulate:
  assumes "I s"
    and "\<And>a s. I s \<Longrightarrow> I (F a s)"
    and "\<And>a s. I s \<Longrightarrow> p (F a s) = p s + D a"
  shows "I (fold F xs s) \<and> (p (fold F xs s) :: real) = p s + sum_list (map D xs)"
  using assms(1)
proof (induction xs arbitrary: s)
  case Nil
  then show ?case by simp
next
  case (Cons a xs)
  have "I (F a s)" using Cons.prems assms(2) by blast
  from Cons.IH[OF this] assms(3)[OF Cons.prems] show ?case by (simp add: add.assoc)
qed

lemma for_loop_sum:
  assumes "I s"
    and "\<And>a s. I s \<Longrightarrow> I (F a s)"
    and "\<And>a s. I s \<Longrightarrow> p (F a s) = p s + D a"
  shows "(p (fold F [0..<n] s) :: real) = p s + (\<Sum>a<n. D a)"
proof -
  have "sum_list (map D [0..<n]) = (\<Sum>a<n. D a)"
    by (simp add: interv_sum_list_conv_sum_set_nat atLeast0LessThan)
  with fold_accumulate[of I s F p D "[0..<n]"] assms show ?thesis by auto
qed

lemma fold_preserves:
  assumes "\<And>a s. g (F a s) = g s"
  shows "g (fold F xs s) = g s"
  by (induction xs arbitrary: s) (simp_all add: assms)

lemma ctx_loop_sum:
  assumes "frame s = frame c"
    and "\<And>a s. frame (F a s) = frame s"
    and "\<And>a s. frame s = frame c \<Longrightarrow> p (F a s) = p s + D a"
  shows "(p (fold F [0..<n] s) :: real) = p s + (\<Sum>a<n. D a)"
  by (rule for_loop_sum[where I = "\<lambda>s. frame s = frame c"]) (simp_all add: assms)

lemma ctx_loop_hit:
  assumes "frame s = frame c"
    and "\<And>a s. frame (F a s) = frame s"
    and "\<And>a s. frame s = frame c \<Longrightarrow> p (F a s) = p s + only_if (a = a') D"
  shows "(p (fold F [0..<n] s) :: real) = p s + only_if (a' < n) D"
proof -
  have "p (fold F [0..<n] s) = p s + (\<Sum>a<n. only_if (a = a') D)"
    by (rule ctx_loop_sum[where c = c]) (simp_all add: assms)
  then show ?thesis by (simp add: only_if_def del: sum_only_if)
qed

lemma dim_cases: "d \<le> 3 \<Longrightarrow> d = 0 \<or> d = Suc 0 \<or> d = 2 \<or> d = (3::nat)"
  by arith

section \<open>The interior assembler: Jacobian\<close>

lemma frame_jacobian_beta [simp]: "frame (element_jacobian_beta sys qp i \<alpha> j \<beta> c) = frame c"
  by (simp add: element_jacobian_beta_def Let_def)

lemma residual_jacobian_beta [simp]:
  "get_elem_residual (element_jacobian_beta sys qp i \<alpha> j \<beta> c) = get_elem_residual c"
  by (simp add: element_jacobian_beta_def Let_def)

lemma jacobian_beta:
  assumes "1 \<le> dim_sys sys" "dim_sys sys \<le> 3"
  shows "get_elem_jacobian (element_jacobian_beta sys qp i \<alpha> j \<beta> c) r cv i' j' =
     get_elem_jacobian c r cv i' j' +
     only_if (j = j') (only_if (i = i') (stiffness_pairs sys c r cv qp i' j' \<alpha> \<beta>))"
proof -
  note defs = element_jacobian_beta_def Let_def disp_var_def dot_var_def mult.assoc
          lessThan_Suc numeral_3_eq_3 numeral_2_eq_2 jacobian_add_jacobian
          stiffness_integrand_def stiffness_pairs_def
  show ?thesis
  proof (cases "i' = i \<and> j' = j")
    case True
    then have [simp]: "i' = i" "j' = j" by auto
    from dim_cases[OF assms(2)] assms(1) show ?thesis
      by (elim disjE) (simp_all add: defs)
  next
    case False
    then have [simp]: "\<And>x. only_if (i' = i \<and> j' = j) x = 0"
      "\<And>x. only_if (j = j') (only_if (i = i') x) = 0" by (auto simp add: only_if_def)
    from dim_cases[OF assms(2)] assms(1) show ?thesis
      by (elim disjE) (simp_all add: defs del: sum_only_if)
  qed
qed

lemma stiffness_pairs_frame:
  assumes "frame s = frame c"
  shows "stiffness_pairs sys s = stiffness_pairs sys c"
  by (intro ext) (simp add: stiffness_pairs_def stiffness_integrand_def frame_reads[OF assms])

lemma jacobian_beta_loop:
  assumes "1 \<le> dim_sys sys" "dim_sys sys \<le> 3" "frame s = frame c"
  shows "get_elem_jacobian (fold (element_jacobian_beta sys qp i \<alpha> j) [0..<n] s) r cv i' j' =
     get_elem_jacobian s r cv i' j' +
     only_if (j = j') (only_if (i = i') (\<Sum>\<beta><n. stiffness_pairs sys c r cv qp i' j' \<alpha> \<beta>))"
proof -
  have "get_elem_jacobian (fold (element_jacobian_beta sys qp i \<alpha> j) [0..<n] s) r cv i' j' =
     get_elem_jacobian s r cv i' j' +
     (\<Sum>\<beta><n. only_if (j = j') (only_if (i = i') (stiffness_pairs sys c r cv qp i' j' \<alpha> \<beta>)))"
  proof (rule ctx_loop_sum[where c = c and p = "\<lambda>s. get_elem_jacobian s r cv i' j'"])
    show "frame s = frame c" by fact
  next
    fix a s show "frame (element_jacobian_beta sys qp i \<alpha> j a s) = frame s" by simp
  next
    fix a s assume fr: "frame s = frame c"
    show "get_elem_jacobian (element_jacobian_beta sys qp i \<alpha> j a s) r cv i' j' =
      get_elem_jacobian s r cv i' j' +
      only_if (j = j') (only_if (i = i') (stiffness_pairs sys c r cv qp i' j' \<alpha> a))"
      using jacobian_beta[OF assms(1,2), of qp i \<alpha> j a s r cv i' j']
      by (simp add: stiffness_pairs_frame[OF fr])
  qed
  then show ?thesis by simp
qed

lemma frame_jacobian_loops [simp]:
  "frame (fold (\<lambda>j. fold (element_jacobian_beta sys qp i \<alpha> j) [0..<d]) [0..<n] s) = frame s"
  by (intro fold_preserves) simp

lemma residual_jacobian_loops [simp]:
  "get_elem_residual (fold (\<lambda>j. fold (element_jacobian_beta sys qp i \<alpha> j) [0..<d]) [0..<n] s)
     = get_elem_residual s"
  by (intro fold_preserves) simp

lemma jacobian_j_loop:
  assumes "1 \<le> dim_sys sys" "dim_sys sys \<le> 3" "frame s = frame c"
  shows "get_elem_jacobian
           (fold (\<lambda>j. fold (element_jacobian_beta sys qp i \<alpha> j) [0..<dim_sys sys]) [0..<n] s)
           r cv i' j' =
     get_elem_jacobian s r cv i' j' +
     only_if (j' < n) (only_if (i = i') (\<Sum>\<beta><dim_sys sys. stiffness_pairs sys c r cv qp i' j' \<alpha> \<beta>))"
proof (rule ctx_loop_hit[where c = c and p = "\<lambda>s. get_elem_jacobian s r cv i' j'"])
  show "frame s = frame c" by fact
next
  fix a s show "frame (fold (element_jacobian_beta sys qp i \<alpha> a) [0..<dim_sys sys] s) = frame s"
    by (intro fold_preserves) simp
next
  fix a s assume "frame s = frame c"
  from jacobian_beta_loop[OF assms(1,2) this]
  show "get_elem_jacobian (fold (element_jacobian_beta sys qp i \<alpha> a) [0..<dim_sys sys] s) r cv i' j' =
    get_elem_jacobian s r cv i' j' +
    only_if (a = j') (only_if (i = i') (\<Sum>\<beta><dim_sys sys. stiffness_pairs sys c r cv qp i' j' \<alpha> \<beta>))"
    by simp
qed

lemma frame_element_alpha_residual [simp]:
  "frame (element_alpha_residual sys tau qp i \<alpha> c) = frame c"
  by (simp add: element_alpha_residual_def Let_def)

lemma jacobian_element_alpha_residual [simp]:
  "get_elem_jacobian (element_alpha_residual sys tau qp i \<alpha> c) = get_elem_jacobian c"
  by (simp add: element_alpha_residual_def Let_def)

lemma frame_element_alpha [simp]: "frame (element_alpha sys rj tau qp i \<alpha> c) = frame c"
  by (simp add: element_alpha_def Let_def)

lemma residual_element_alpha [simp]:
  "get_elem_residual (element_alpha sys rj tau qp i \<alpha> c) =
   get_elem_residual (element_alpha_residual sys tau qp i \<alpha> c)"
  by (simp add: element_alpha_def Let_def)

lemma jacobian_element_alpha:
  assumes "1 \<le> dim_sys sys" "dim_sys sys \<le> 3" "frame s = frame c"
  shows "get_elem_jacobian (element_alpha sys rj tau qp i \<alpha> s) r cv i' j' =
     get_elem_jacobian s r cv i' j' +
     only_if (i = i') (only_if (rj \<and> j' < n_dof_indices c (u_var sys))
        (\<Sum>\<beta><dim_sys sys. stiffness_pairs sys c r cv qp i' j' \<alpha> \<beta>))"
proof (cases rj)
  case False
  then show ?thesis by (simp add: element_alpha_def Let_def)
next
  case True
  have fr: "frame (element_alpha_residual sys tau qp i \<alpha> s) = frame c"
    using assms(3) by simp
  show ?thesis
    using True jacobian_j_loop[OF assms(1,2) fr, of qp i \<alpha> "n_dof_indices c (u_var sys)" r cv i' j']
    by (simp add: element_alpha_def Let_def frame_reads[OF assms(3)] only_if_def)
qed

lemma jacobian_alpha_loop:
  assumes "1 \<le> dim_sys sys" "dim_sys sys \<le> 3" "frame s = frame c"
  shows "get_elem_jacobian (fold (element_alpha sys rj tau qp i) [0..<dim_sys sys] s) r cv i' j' =
     get_elem_jacobian s r cv i' j' +
     only_if (i = i') (only_if (rj \<and> j' < n_dof_indices c (u_var sys))
        (\<Sum>\<alpha><dim_sys sys. \<Sum>\<beta><dim_sys sys. stiffness_pairs sys c r cv qp i' j' \<alpha> \<beta>))"
proof -
  have "get_elem_jacobian (fold (element_alpha sys rj tau qp i) [0..<dim_sys sys] s) r cv i' j' =
     get_elem_jacobian s r cv i' j' +
     (\<Sum>\<alpha><dim_sys sys. only_if (i = i') (only_if (rj \<and> j' < n_dof_indices c (u_var sys))
        (\<Sum>\<beta><dim_sys sys. stiffness_pairs sys c r cv qp i' j' \<alpha> \<beta>)))"
  proof (rule ctx_loop_sum[where c = c and p = "\<lambda>s. get_elem_jacobian s r cv i' j'"])
    fix a s assume "frame s = frame c"
    from jacobian_element_alpha[OF assms(1,2) this]
    show "get_elem_jacobian (element_alpha sys rj tau qp i a s) r cv i' j' =
      get_elem_jacobian s r cv i' j' +
      only_if (i = i') (only_if (rj \<and> j' < n_dof_indices c (u_var sys))
        (\<Sum>\<beta><dim_sys sys. stiffness_pairs sys c r cv qp i' j' a \<beta>))" .
  qed (simp_all add: assms)
  then show ?thesis by simp
qed

lemma frame_element_qp [simp]: "frame (element_qp sys rj qp c) = frame c"
  unfolding element_qp_def Let_def
  by (intro fold_preserves) simp

lemma jacobian_element_qp:
  assumes "1 \<le> dim_sys sys" "dim_sys sys \<le> 3" "frame s = frame c"
  shows "get_elem_jacobian (element_qp sys rj qp s) r cv i' j' =
     get_elem_jacobian s r cv i' j' +
     only_if (rj \<and> i' < n_dof_indices c (u_var sys) \<and> j' < n_dof_indices c (u_var sys))
        (\<Sum>\<alpha><dim_sys sys. \<Sum>\<beta><dim_sys sys. stiffness_pairs sys c r cv qp i' j' \<alpha> \<beta>)"
proof -
  let ?n = "n_dof_indices c (u_var sys)"
  have "get_elem_jacobian (element_qp sys rj qp s) r cv i' j' =
     get_elem_jacobian s r cv i' j' +
     only_if (i' < ?n) (only_if (rj \<and> j' < ?n)
        (\<Sum>\<alpha><dim_sys sys. \<Sum>\<beta><dim_sys sys. stiffness_pairs sys c r cv qp i' j' \<alpha> \<beta>))"
    unfolding element_qp_def Let_def frame_reads[OF assms(3)]
  proof (rule ctx_loop_hit[where c = c and p = "\<lambda>s. get_elem_jacobian s r cv i' j'"])
    fix a s assume "frame s = frame c"
    from jacobian_alpha_loop[OF assms(1,2) this]
    show "get_elem_jacobian (fold (element_alpha sys rj
             (compute_tau (dim_sys sys)
               (TensorValue (interior_gradient c (u_var sys) qp)
                 (if 1 < dim_sys sys then interior_gradient c (v_var sys) qp else zero_gradient)
                 (if 2 < dim_sys sys then interior_gradient c (w_var sys) qp else zero_gradient)))
             qp a) [0..<dim_sys sys] s) r cv i' j' =
      get_elem_jacobian s r cv i' j' +
      only_if (a = i') (only_if (rj \<and> j' < ?n)
        (\<Sum>\<alpha><dim_sys sys. \<Sum>\<beta><dim_sys sys. stiffness_pairs sys c r cv qp i' j' \<alpha> \<beta>))" .
  qed (simp_all add: assms fold_preserves)
  then show ?thesis by (auto simp add: only_if_def)
qed

lemma jacobian_element_time_derivative:
  assumes "1 \<le> dim_sys sys" "dim_sys sys \<le> 3"
  shows "get_elem_jacobian (snd (element_time_derivative sys rj c)) r cv i' j' =
     get_elem_jacobian c r cv i' j' +
     only_if (rj \<and> i' < n_dof_indices c (u_var sys) \<and> j' < n_dof_indices c (u_var sys))
        (\<Sum>qp<element_qrule_n_points c. \<Sum>\<alpha><dim_sys sys. \<Sum>\<beta><dim_sys sys.
            stiffness_pairs sys c r cv qp i' j' \<alpha> \<beta>)"
proof -
  let ?n = "n_dof_indices c (u_var sys)"
  have "get_elem_jacobian (fold (element_qp sys rj) [0..<element_qrule_n_points c] c) r cv i' j' =
     get_elem_jacobian c r cv i' j' +
     (\<Sum>qp<element_qrule_n_points c. only_if (rj \<and> i' < ?n \<and> j' < ?n)
        (\<Sum>\<alpha><dim_sys sys. \<Sum>\<beta><dim_sys sys. stiffness_pairs sys c r cv qp i' j' \<alpha> \<beta>))"
  proof (rule ctx_loop_sum[where c = c and p = "\<lambda>s. get_elem_jacobian s r cv i' j'"])
    fix a s assume "frame s = frame c"
    from jacobian_element_qp[OF assms(1,2) this]
    show "get_elem_jacobian (element_qp sys rj a s) r cv i' j' =
      get_elem_jacobian s r cv i' j' +
      only_if (rj \<and> i' < ?n \<and> j' < ?n)
        (\<Sum>\<alpha><dim_sys sys. \<Sum>\<beta><dim_sys sys. stiffness_pairs sys c r cv a i' j' \<alpha> \<beta>)" .
  qed simp_all
  then show ?thesis by (simp add: element_time_derivative_def Let_def)
qed

section \<open>The interior assembler: residual\<close>

lemma loop_sum:
  assumes "\<And>a s. p (F a s) = p s + D a"
  shows "(p (fold F [0..<n] s) :: real) = p s + (\<Sum>a<n. D a)"
  by (rule for_loop_sum[where I = "\<lambda>_. True"]) (simp_all add: assms)

lemma loop_hit:
  assumes "\<And>a s. p (F a s) = p s + only_if (a = a') D"
  shows "(p (fold F [0..<n] s) :: real) = p s + only_if (a' < n) D"
proof -
  have "p (fold F [0..<n] s) = p s + (\<Sum>a<n. only_if (a = a') D)"
    by (rule loop_sum) (simp add: assms)
  then show ?thesis by (simp add: only_if_def del: sum_only_if)
qed

lemma tensor_add_entry:
  "tensor_add i j x t i' j' = t i' j' + only_if (i = i') (only_if (j = j') x)"
  by (simp add: tensor_add_def only_if_def)

lemma compute_tau_entry:
  "compute_tau d G i' j' =
     only_if (i' < d) (only_if (j' < d) (\<Sum>k<d. \<Sum>l<d. elasticity_tensor i' j' k l * G k l))"
proof -
  have l: "fold (\<lambda>l tau. tensor_add i j (elasticity_tensor i j k l * G k l) tau) [0..<d] t i' j' =
      t i' j' + only_if (j = j') (only_if (i = i') (\<Sum>l<d. elasticity_tensor i' j' k l * G k l))"
    for i j k t
  proof -
    have "fold (\<lambda>l tau. tensor_add i j (elasticity_tensor i j k l * G k l) tau) [0..<d] t i' j' =
      t i' j' + (\<Sum>l<d. only_if (j = j') (only_if (i = i') (elasticity_tensor i' j' k l * G k l)))"
      by (rule loop_sum[where p = "\<lambda>t. t i' j'"]) (auto simp add: tensor_add_entry only_if_def)
    then show ?thesis by simp
  qed
  have k: "fold (\<lambda>k. fold (\<lambda>l tau. tensor_add i j (elasticity_tensor i j k l * G k l) tau) [0..<d])
             [0..<d] t i' j' =
      t i' j' + only_if (j = j') (only_if (i = i')
         (\<Sum>k<d. \<Sum>l<d. elasticity_tensor i' j' k l * G k l))" for i j t
  proof -
    have "fold (\<lambda>k. fold (\<lambda>l tau. tensor_add i j (elasticity_tensor i j k l * G k l) tau) [0..<d])
             [0..<d] t i' j' =
      t i' j' + (\<Sum>k<d. only_if (j = j') (only_if (i = i')
         (\<Sum>l<d. elasticity_tensor i' j' k l * G k l)))"
      by (rule loop_sum[where p = "\<lambda>t. t i' j'"]) (rule l)
    then show ?thesis by simp
  qed
  have j: "fold (\<lambda>j. fold (\<lambda>k. fold (\<lambda>l tau.
               tensor_add i j (elasticity_tensor i j k l * G k l) tau) [0..<d]) [0..<d])
             [0..<d] t i' j' =
      t i' j' + only_if (i = i') (only_if (j' < d)
         (\<Sum>k<d. \<Sum>l<d. elasticity_tensor i' j' k l * G k l))" for i t
  proof -
    have "fold (\<lambda>j. fold (\<lambda>k. fold (\<lambda>l tau.
               tensor_add i j (elasticity_tensor i j k l * G k l) tau) [0..<d]) [0..<d])
             [0..<d] t i' j' =
      t i' j' + only_if (j' < d) (only_if (i = i')
         (\<Sum>k<d. \<Sum>l<d. elasticity_tensor i' j' k l * G k l))"
      by (rule loop_hit[where p = "\<lambda>t. t i' j'"]) (rule k)
    then show ?thesis by (simp add: only_if_def)
  qed
  have "compute_tau d G i' j' =
     zero_tensor i' j' + only_if (i' < d) (only_if (j' < d)
        (\<Sum>k<d. \<Sum>l<d. elasticity_tensor i' j' k l * G k l))"
    unfolding compute_tau_def
    by (rule loop_hit[where p = "\<lambda>t. t i' j'"]) (rule j)
  then show ?thesis by (simp add: zero_tensor_def)
qed

lemma grad_U_rows:
  assumes "k < dim_sys sys" "dim_sys sys \<le> 3"
  shows "TensorValue (interior_gradient c (u_var sys) qp)
           (if 1 < dim_sys sys then interior_gradient c (v_var sys) qp else zero_gradient)
           (if 2 < dim_sys sys then interior_gradient c (w_var sys) qp else zero_gradient) k l =
         grad_U_at sys c qp k l"
  using assms by (auto simp add: TensorValue_def grad_U_at_def disp_var_def)

lemma tau_is_stress:
  assumes "m < dim_sys sys" "\<alpha> < dim_sys sys" "dim_sys sys \<le> 3"
  shows "compute_tau (dim_sys sys)
           (TensorValue (interior_gradient c (u_var sys) qp)
             (if 1 < dim_sys sys then interior_gradient c (v_var sys) qp else zero_gradient)
             (if 2 < dim_sys sys then interior_gradient c (w_var sys) qp else zero_gradient)) m \<alpha> =
         stress sys c qp m \<alpha>"
proof -
  let ?G = "TensorValue (interior_gradient c (u_var sys) qp)
             (if 1 < dim_sys sys then interior_gradient c (v_var sys) qp else zero_gradient)
             (if 2 < dim_sys sys then interior_gradient c (w_var sys) qp else zero_gradient)"
  have "(\<Sum>k<dim_sys sys. \<Sum>l<dim_sys sys. elasticity_tensor m \<alpha> k l * ?G k l) =
        (\<Sum>k<dim_sys sys. \<Sum>l<dim_sys sys. elasticity_tensor m \<alpha> k l * grad_U_at sys c qp k l)"
  proof (intro sum.cong refl)
    fix k l assume "k \<in> {..<dim_sys sys}"
    then have "k < dim_sys sys" by simp
    from grad_U_rows[OF this assms(3)]
    show "elasticity_tensor m \<alpha> k l * ?G k l = elasticity_tensor m \<alpha> k l * grad_U_at sys c qp k l"
      by (rule arg_cong)
  qed
  then show ?thesis
    using assms(1,2) unfolding compute_tau_entry stress_def by simp
qed


lemma residual_element_alpha_residual:
  assumes "1 \<le> dim_sys sys" "dim_sys sys \<le> 3"
  shows "get_elem_residual (element_alpha_residual sys tau qp i \<alpha> c) r i' =
     get_elem_residual c r i' +
     only_if (i = i')
       (\<Sum>m<dim_sys sys. only_if (r = dot_var sys m)
          ((tau m \<alpha> * get_dphi (get_element_fe c (u_var sys)) i' qp \<alpha> -
            body_force m * get_phi (get_element_fe c (u_var sys)) i' qp) *
           get_JxW (get_element_fe c (u_var sys)) qp))"
proof -
  note defs = element_alpha_residual_def Let_def disp_var_def dot_var_def
          lessThan_Suc numeral_3_eq_3 numeral_2_eq_2 residual_add_residual
  show ?thesis
  proof (cases "i = i'")
    case True
    from dim_cases[OF assms(2)] assms(1) show ?thesis
      by (elim disjE) (simp_all add: defs True)
  next
    case False
    from dim_cases[OF assms(2)] assms(1) show ?thesis
      by (elim disjE) (simp_all add: defs False del: sum_only_if)
  qed
qed

lemma residual_alpha_loop:
  assumes "1 \<le> dim_sys sys" "dim_sys sys \<le> 3" "frame s = frame c"
  shows "get_elem_residual (fold (element_alpha sys rj tau qp i) [0..<n] s) r i' =
     get_elem_residual s r i' +
     only_if (i = i')
       (\<Sum>\<alpha><n. \<Sum>m<dim_sys sys. only_if (r = dot_var sys m)
          ((tau m \<alpha> * get_dphi (get_element_fe c (u_var sys)) i' qp \<alpha> -
            body_force m * get_phi (get_element_fe c (u_var sys)) i' qp) *
           get_JxW (get_element_fe c (u_var sys)) qp))"
proof -
  have "get_elem_residual (fold (element_alpha sys rj tau qp i) [0..<n] s) r i' =
     get_elem_residual s r i' +
     (\<Sum>\<alpha><n. only_if (i = i')
       (\<Sum>m<dim_sys sys. only_if (r = dot_var sys m)
          ((tau m \<alpha> * get_dphi (get_element_fe c (u_var sys)) i' qp \<alpha> -
            body_force m * get_phi (get_element_fe c (u_var sys)) i' qp) *
           get_JxW (get_element_fe c (u_var sys)) qp)))"
  proof (rule ctx_loop_sum[where c = c and p = "\<lambda>s. get_elem_residual s r i'"])
    fix a s assume fr: "frame s = frame c"
    show "get_elem_residual (element_alpha sys rj tau qp i a s) r i' =
      get_elem_residual s r i' +
      only_if (i = i')
       (\<Sum>m<dim_sys sys. only_if (r = dot_var sys m)
          ((tau m a * get_dphi (get_element_fe c (u_var sys)) i' qp a -
            body_force m * get_phi (get_element_fe c (u_var sys)) i' qp) *
           get_JxW (get_element_fe c (u_var sys)) qp))"
      using residual_element_alpha_residual[OF assms(1,2), of tau qp i a s r i']
      by (simp add: frame_reads[OF fr])
  qed (simp_all add: assms)
  then show ?thesis by simp
qed

lemma residual_hits_stress:
  assumes "dim_sys sys \<le> 3"
  shows "(\<Sum>\<alpha><dim_sys sys. \<Sum>m<dim_sys sys. only_if (r = dot_var sys m)
          ((compute_tau (dim_sys sys)
             (TensorValue (interior_gradient c (u_var sys) qp)
               (if 1 < dim_sys sys then interior_gradient c (v_var sys) qp else zero_gradient)
               (if 2 < dim_sys sys then interior_gradient c (w_var sys) qp else zero_gradient)) m \<alpha> *
            get_dphi (get_element_fe c (u_var sys)) i qp \<alpha> -
            body_force m * get_phi (get_element_fe c (u_var sys)) i qp) *
           get_JxW (get_element_fe c (u_var sys)) qp)) =
         (\<Sum>\<alpha><dim_sys sys. residual_hits sys c r qp i \<alpha>)"
  unfolding residual_hits_def residual_integrand_def
proof (intro sum.cong refl)
  fix \<alpha> m assume "\<alpha> \<in> {..<dim_sys sys}" "m \<in> {..<dim_sys sys}"
  then have "m < dim_sys sys" "\<alpha> < dim_sys sys" by simp_all
  from tau_is_stress[OF this assms, of c qp]
  show "only_if (r = dot_var sys m)
          ((compute_tau (dim_sys sys)
             (TensorValue (interior_gradient c (u_var sys) qp)
               (if 1 < dim_sys sys then interior_gradient c (v_var sys) qp else zero_gradient)
               (if 2 < dim_sys sys then interior_gradient c (w_var sys) qp else zero_gradient)) m \<alpha> *
            get_dphi (get_element_fe c (u_var sys)) i qp \<alpha> -
            body_force m * get_phi (get_element_fe c (u_var sys)) i qp) *
           get_JxW (get_element_fe c (u_var sys)) qp) =
        only_if (r = dot_var sys m)
          ((stress sys c qp m \<alpha> * get_dphi (get_element_fe c (u_var sys)) i qp \<alpha> -
            body_force m * get_phi (get_element_fe c (u_var sys)) i qp) *
           get_JxW (get_element_fe c (u_var sys)) qp)"
    by (simp only:)
qed

lemma residual_element_qp:
  assumes "1 \<le> dim_sys sys" "dim_sys sys \<le> 3" "frame s = frame c"
  shows "get_elem_residual (element_qp sys rj qp s) r i' =
     get_elem_residual s r i' +
     only_if (i' < n_dof_indices c (u_var sys)) (\<Sum>\<alpha><dim_sys sys. residual_hits sys c r qp i' \<alpha>)"
  unfolding element_qp_def Let_def frame_reads[OF assms(3)]
proof (rule ctx_loop_hit[where c = c and p = "\<lambda>s. get_elem_residual s r i'"])
  fix a s assume "frame s = frame c"
  from residual_alpha_loop[OF assms(1,2) this, of rj _ qp a "dim_sys sys" r i']
  show "get_elem_residual (fold (element_alpha sys rj
             (compute_tau (dim_sys sys)
               (TensorValue (interior_gradient c (u_var sys) qp)
                 (if 1 < dim_sys sys then interior_gradient c (v_var sys) qp else zero_gradient)
                 (if 2 < dim_sys sys then interior_gradient c (w_var sys) qp else zero_gradient)))
             qp a) [0..<dim_sys sys] s) r i' =
      get_elem_residual s r i' +
      only_if (a = i') (\<Sum>\<alpha><dim_sys sys. residual_hits sys c r qp i' \<alpha>)"
    by (simp only: residual_hits_stress[OF assms(2)])
qed (simp_all add: assms fold_preserves)

lemma residual_element_time_derivative:
  assumes "1 \<le> dim_sys sys" "dim_sys sys \<le> 3"
  shows "get_elem_residual (snd (element_time_derivative sys rj c)) r i' =
     get_elem_residual c r i' +
     only_if (i' < n_dof_indices c (u_var sys))
        (\<Sum>qp<element_qrule_n_points c. \<Sum>\<alpha><dim_sys sys. residual_hits sys c r qp i' \<alpha>)"
proof -
  let ?n = "n_dof_indices c (u_var sys)"
  have "get_elem_residual (fold (element_qp sys rj) [0..<element_qrule_n_points c] c) r i' =
     get_elem_residual c r i' +
     (\<Sum>qp<element_qrule_n_points c. only_if (i' < ?n)
        (\<Sum>\<alpha><dim_sys sys. residual_hits sys c r qp i' \<alpha>))"
  proof (rule ctx_loop_sum[where c = c and p = "\<lambda>s. get_elem_residual s r i'"])
    fix a s assume "frame s = frame c"
    from residual_element_qp[OF assms(1,2) this]
    show "get_elem_residual (element_qp sys rj a s) r i' =
      get_elem_residual s r i' +
      only_if (i' < ?n) (\<Sum>\<alpha><dim_sys sys. residual_hits sys c r a i' \<alpha>)" .
  qed simp_all
  then show ?thesis by (simp add: element_time_derivative_def Let_def)
qed

lemma sum_swap_pairs:
  "(\<Sum>\<alpha><a. \<Sum>\<beta><b. \<Sum>m<d. \<Sum>m'<d. only_if (C m m') (X m \<alpha> m' \<beta>)) =
   (\<Sum>m<d. \<Sum>m'<d. only_if (C m m') (\<Sum>\<alpha><a. \<Sum>\<beta><(b::nat). (X m \<alpha> m' \<beta> :: real)))"
proof -
  have "(\<Sum>\<alpha><a. \<Sum>\<beta><b. \<Sum>m<d. \<Sum>m'<d. only_if (C m m') (X m \<alpha> m' \<beta>)) =
        (\<Sum>\<alpha><a. \<Sum>m<d. \<Sum>\<beta><b. \<Sum>m'<d. only_if (C m m') (X m \<alpha> m' \<beta>))"
    by (intro sum.cong refl) (rule sum.swap)
  also have "\<dots> = (\<Sum>\<alpha><a. \<Sum>m<d. \<Sum>m'<d. \<Sum>\<beta><b. only_if (C m m') (X m \<alpha> m' \<beta>))"
    by (intro sum.cong refl) (rule sum.swap)
  also have "\<dots> = (\<Sum>m<d. \<Sum>\<alpha><a. \<Sum>m'<d. \<Sum>\<beta><b. only_if (C m m') (X m \<alpha> m' \<beta>))"
    by (rule sum.swap)
  also have "\<dots> = (\<Sum>m<d. \<Sum>m'<d. \<Sum>\<alpha><a. \<Sum>\<beta><b. only_if (C m m') (X m \<alpha> m' \<beta>))"
    by (intro sum.cong refl) (rule sum.swap)
  finally show ?thesis by simp
qed

lemma stiffness_pairs_sum:
  "(\<Sum>\<alpha><dim_sys sys. \<Sum>\<beta><dim_sys sys. stiffness_pairs sys c r cv qp i j \<alpha> \<beta>) =
   (\<Sum>m<dim_sys sys. \<Sum>m'<dim_sys sys.
      if r = dot_var sys m \<and> cv = disp_var sys m'
      then \<Sum>\<alpha><dim_sys sys. \<Sum>\<beta><dim_sys sys. stiffness_integrand sys c qp i j m \<alpha> m' \<beta>
      else 0)"
  unfolding stiffness_pairs_def sum_swap_pairs by (simp add: only_if_def)

lemma sum_pick:
  assumes "inj_on f {..<d}" "m < (d::nat)"
  shows "(\<Sum>k<d. if f m = f k then (X k :: real) else 0) = X m"
proof -
  have "(\<Sum>k<d. if f m = f k then X k else 0) = (\<Sum>k<d. if m = k then X k else 0)"
    using assms by (intro sum.cong refl) (auto dest: inj_onD)
  then show ?thesis using assms(2) by simp
qed

lemma sum_pick_pair:
  assumes "inj_on f {..<d}" "inj_on g {..<d}" "m < (d::nat)" "m' < d"
  shows "(\<Sum>k<d. \<Sum>k'<d. if f m = f k \<and> g m' = g k' then (X k k' :: real) else 0) = X m m'"
proof -
  have "(\<Sum>k<d. \<Sum>k'<d. if f m = f k \<and> g m' = g k' then X k k' else 0) =
        (\<Sum>k<d. if f m = f k then (\<Sum>k'<d. if g m' = g k' then X k k' else 0) else 0)"
    by (intro sum.cong refl) simp
  also have "\<dots> = (\<Sum>k'<d. if g m' = g k' then X m k' else 0)"
    by (rule sum_pick[OF assms(1,3)])
  also have "\<dots> = X m m'"
    by (rule sum_pick[OF assms(2,4)])
  finally show ?thesis .
qed

lemma residual_hits_pick:
  "(\<Sum>\<alpha><dim_sys sys. residual_hits sys c r qp i \<alpha>) =
   (\<Sum>m<dim_sys sys. if r = dot_var sys m
       then \<Sum>\<alpha><dim_sys sys. residual_integrand sys c qp i m \<alpha> else 0)"
proof -
  have "(\<Sum>\<alpha><dim_sys sys. residual_hits sys c r qp i \<alpha>) =
        (\<Sum>m<dim_sys sys. \<Sum>\<alpha><dim_sys sys.
            only_if (r = dot_var sys m) (residual_integrand sys c qp i m \<alpha>))"
    unfolding residual_hits_def by (rule sum.swap)
  also have "\<dots> = (\<Sum>m<dim_sys sys. if r = dot_var sys m
       then \<Sum>\<alpha><dim_sys sys. residual_integrand sys c qp i m \<alpha> else 0)"
    by (intro sum.cong refl) (simp add: only_if_def)
  finally show ?thesis .
qed

text \<open>What the code adds to a residual block, in closed form.\<close>

lemma element_time_derivative_residual:
  assumes "1 \<le> dim_sys sys" "dim_sys sys \<le> 3"
  shows "get_elem_residual (snd (element_time_derivative sys rj c)) r i =
     get_elem_residual c r i +
     (if i < n_dof_indices c (u_var sys)
      then \<Sum>qp<element_qrule_n_points c. \<Sum>m<dim_sys sys.
             if r = dot_var sys m
             then \<Sum>\<alpha><dim_sys sys. residual_integrand sys c qp i m \<alpha> else 0
      else 0)"
  unfolding residual_element_time_derivative[OF assms] residual_hits_pick
  by (simp add: only_if_def)

text \<open>
  Claim C2. With the Jacobian requested, the block whose row is the rate variable of
  component \<open>m\<close> and whose column is the displacement variable of trial component \<open>m'\<close>
  receives, for every quadrature point, test dof \<open>i\<close>, trial dof \<open>j\<close> and directions
  \<open>\<alpha>\<close>, \<open>\<beta>\<close>, exactly \<open>elasticity(m,\<alpha>,m',\<beta>) \<nabla>\<phi>\<^sub>j(\<beta>) scale \<nabla>\<phi>\<^sub>i(\<alpha>) JxW[qp]\<close>, for every pair of
  active components. The first conjunct says so for any block \<open>(r, cv)\<close>, summing over
  the pairs that address it; the second is the case where the active variables and their
  rate variables are pairwise distinct, so that a block has one pair. Without the
  request no Jacobian block changes, while the residual is computed in full: each rate
  block receives, for every quadrature point, test dof and pass of the loop over
  \<^verbatim>\<open>alpha\<close>, the term \<open>(\<tau>(m,\<alpha>) \<nabla>\<phi>\<^sub>i(\<alpha>) - bodyforce(m) \<phi>\<^sub>i) JxW[qp]\<close> of the components \<open>m\<close> that
  address it, which is also what it receives with the request. The returned flag is the
  request.
\<close>

theorem element_time_derivative_jacobian:
  assumes "1 \<le> dim_sys sys" "dim_sys sys \<le> 3"
  shows "get_elem_jacobian (snd (element_time_derivative sys True c)) r cv i j =
           get_elem_jacobian c r cv i j +
           (if i < n_dof_indices c (u_var sys) \<and> j < n_dof_indices c (u_var sys)
            then \<Sum>qp<element_qrule_n_points c. \<Sum>m<dim_sys sys. \<Sum>m'<dim_sys sys.
                   if r = dot_var sys m \<and> cv = disp_var sys m'
                   then \<Sum>\<alpha><dim_sys sys. \<Sum>\<beta><dim_sys sys. stiffness_integrand sys c qp i j m \<alpha> m' \<beta>
                   else 0
            else 0)
       \<and> (inj_on (dot_var sys) {..<dim_sys sys} \<and> inj_on (disp_var sys) {..<dim_sys sys} \<and>
          m < dim_sys sys \<and> m' < dim_sys sys \<and>
          i < n_dof_indices c (u_var sys) \<and> j < n_dof_indices c (u_var sys) \<longrightarrow>
          get_elem_jacobian (snd (element_time_derivative sys True c)) (dot_var sys m) (disp_var sys m') i j =
            get_elem_jacobian c (dot_var sys m) (disp_var sys m') i j +
            (\<Sum>qp<element_qrule_n_points c. \<Sum>\<alpha><dim_sys sys. \<Sum>\<beta><dim_sys sys.
               stiffness_integrand sys c qp i j m \<alpha> m' \<beta>))
       \<and> get_elem_jacobian (snd (element_time_derivative sys False c)) = get_elem_jacobian c
       \<and> get_elem_residual (snd (element_time_derivative sys False c)) r i =
           get_elem_residual c r i +
           (if i < n_dof_indices c (u_var sys)
            then \<Sum>qp<element_qrule_n_points c. \<Sum>m<dim_sys sys.
                   if r = dot_var sys m
                   then \<Sum>\<alpha><dim_sys sys.
                          (stress sys c qp m \<alpha> * get_dphi (get_element_fe c (u_var sys)) i qp \<alpha> -
                           body_force m * get_phi (get_element_fe c (u_var sys)) i qp) *
                          get_JxW (get_element_fe c (u_var sys)) qp
                   else 0
            else 0)
       \<and> get_elem_residual (snd (element_time_derivative sys False c)) =
          get_elem_residual (snd (element_time_derivative sys True c))
       \<and> fst (element_time_derivative sys True c) = True
       \<and> fst (element_time_derivative sys False c) = False"
proof -
  have general: "get_elem_jacobian (snd (element_time_derivative sys True c)) r cv i j =
           get_elem_jacobian c r cv i j +
           (if i < n_dof_indices c (u_var sys) \<and> j < n_dof_indices c (u_var sys)
            then \<Sum>qp<element_qrule_n_points c. \<Sum>m<dim_sys sys. \<Sum>m'<dim_sys sys.
                   if r = dot_var sys m \<and> cv = disp_var sys m'
                   then \<Sum>\<alpha><dim_sys sys. \<Sum>\<beta><dim_sys sys. stiffness_integrand sys c qp i j m \<alpha> m' \<beta>
                   else 0
            else 0)" for r cv i j
    unfolding jacobian_element_time_derivative[OF assms] stiffness_pairs_sum
    by (simp add: only_if_def)
  have block: "get_elem_jacobian (snd (element_time_derivative sys True c)) (dot_var sys m) (disp_var sys m') i j =
            get_elem_jacobian c (dot_var sys m) (disp_var sys m') i j +
            (\<Sum>qp<element_qrule_n_points c. \<Sum>\<alpha><dim_sys sys. \<Sum>\<beta><dim_sys sys.
               stiffness_integrand sys c qp i j m \<alpha> m' \<beta>)"
    if "inj_on (dot_var sys) {..<dim_sys sys}" "inj_on (disp_var sys) {..<dim_sys sys}"
       "m < dim_sys sys" "m' < dim_sys sys"
       "i < n_dof_indices c (u_var sys)" "j < n_dof_indices c (u_var sys)"
    unfolding general using that(5,6) by (simp add: sum_pick_pair[OF that(1-4)])
  have off: "get_elem_jacobian (snd (element_time_derivative sys False c)) = get_elem_jacobian c"
    by (intro ext) (simp add: jacobian_element_time_derivative[OF assms])
  have res: "get_elem_residual (snd (element_time_derivative sys False c)) =
          get_elem_residual (snd (element_time_derivative sys True c))"
    by (intro ext) (simp add: residual_element_time_derivative[OF assms])
  have closed: "get_elem_residual (snd (element_time_derivative sys False c)) r i =
           get_elem_residual c r i +
           (if i < n_dof_indices c (u_var sys)
            then \<Sum>qp<element_qrule_n_points c. \<Sum>m<dim_sys sys.
                   if r = dot_var sys m
                   then \<Sum>\<alpha><dim_sys sys.
                          (stress sys c qp m \<alpha> * get_dphi (get_element_fe c (u_var sys)) i qp \<alpha> -
                           body_force m * get_phi (get_element_fe c (u_var sys)) i qp) *
                          get_JxW (get_element_fe c (u_var sys)) qp
                   else 0
            else 0)"
    unfolding element_time_derivative_residual[OF assms] residual_integrand_def ..
  have flags: "fst (element_time_derivative sys True c) = True"
    "fst (element_time_derivative sys False c) = False"
    by (simp_all add: element_time_derivative_def Let_def)
  from general block off closed res flags show ?thesis by blast
qed

lemmas example_defs =
  example_system_def example_context_def example_fe_def stretched_context_def
  skew_fe_def skew_context_def
  disp_var_def dot_var_def VectorValue_def zero_gradient_def body_force_def
  lessThan_Suc numeral_3_eq_3 numeral_2_eq_2

theorem element_time_derivative_jacobian_witness:
  "1 \<le> dim_sys example_system \<and> dim_sys example_system \<le> 3 \<and>
   inj_on (dot_var example_system) {..<dim_sys example_system} \<and>
   inj_on (disp_var example_system) {..<dim_sys example_system} \<and>
   get_elem_jacobian (snd (element_time_derivative example_system True (example_context {}))) 0 0 0 0 =
     1750 / 13 \<and>
   get_elem_jacobian (snd (element_time_derivative example_system True (example_context {}))) 1 0 0 0 = 0 \<and>
   get_elem_jacobian (snd (element_time_derivative example_system True (example_context {}))) 1 1 0 0 =
     500 / 13 \<and>
   get_elem_jacobian (snd (element_time_derivative example_system False (example_context {}))) 0 0 0 0 = 0 \<and>
   get_elem_jacobian (snd (element_time_derivative example_system True skew_context)) 0 1 0 0 =
     2500 / 13 \<and>
   get_elem_jacobian (snd (element_time_derivative example_system True skew_context)) 2 0 0 0 =
     3750 / 13 \<and>
   get_elem_jacobian (snd (element_time_derivative example_system False skew_context)) 0 1 0 0 = 0 \<and>
   get_elem_residual (snd (element_time_derivative example_system False skew_context)) 0 0 =
     1750 / 13 \<and>
   get_elem_residual (snd (element_time_derivative example_system False skew_context)) 1 0 =
     1500 / 13 \<and>
   get_elem_residual (snd (element_time_derivative example_system True skew_context)) 1 0 =
     1500 / 13"
proof -
  have d: "1 \<le> dim_sys example_system" "dim_sys example_system \<le> 3"
    by (simp_all add: example_system_def)
  have inj: "inj_on (dot_var example_system) {..<dim_sys example_system}"
     "inj_on (disp_var example_system) {..<dim_sys example_system}"
    by (auto simp add: inj_on_def example_defs less_Suc_eq)
  note evals = example_defs stiffness_integrand_def elasticity_tensor_def kronecker_delta_def
    stress_def grad_U_at_def Let_def
  note t = element_time_derivative_jacobian[OF d, where c = "example_context {}" and i = 0 and j = 0]
  note u = element_time_derivative_jacobian[OF d, where c = skew_context and i = 0 and j = 0]
  from t[where m = 0 and m' = 0, THEN conjunct2, THEN conjunct1] inj
  have a: "get_elem_jacobian (snd (element_time_derivative example_system True (example_context {}))) 0 0 0 0 =
     1750 / 13"
    by (simp add: evals)
  from t[where m = 1 and m' = 0, THEN conjunct2, THEN conjunct1] inj
  have b: "get_elem_jacobian (snd (element_time_derivative example_system True (example_context {}))) 1 0 0 0 = 0"
    by (simp add: evals)
  from t[where m = 1 and m' = 1, THEN conjunct2, THEN conjunct1] inj
  have c: "get_elem_jacobian (snd (element_time_derivative example_system True (example_context {}))) 1 1 0 0 =
     500 / 13"
    by (simp add: evals)
  from t[where m = 0 and m' = 0, THEN conjunct2, THEN conjunct2, THEN conjunct1]
  have e: "get_elem_jacobian (snd (element_time_derivative example_system False (example_context {}))) 0 0 0 0 = 0"
    by (simp add: example_context_def)
  from u[where m = 0 and m' = 1, THEN conjunct2, THEN conjunct1] inj
  have f: "get_elem_jacobian (snd (element_time_derivative example_system True skew_context)) 0 1 0 0 =
     2500 / 13"
    by (simp add: evals)
  from u[where m = 2 and m' = 0, THEN conjunct2, THEN conjunct1] inj
  have g: "get_elem_jacobian (snd (element_time_derivative example_system True skew_context)) 2 0 0 0 =
     3750 / 13"
    by (simp add: evals)
  from u[where m = 0 and m' = 1, THEN conjunct2, THEN conjunct2, THEN conjunct1]
  have h: "get_elem_jacobian (snd (element_time_derivative example_system False skew_context)) 0 1 0 0 = 0"
    by (simp add: example_defs)
  from u[where r = 0, THEN conjunct2, THEN conjunct2, THEN conjunct2, THEN conjunct1]
  have k: "get_elem_residual (snd (element_time_derivative example_system False skew_context)) 0 0 =
     1750 / 13"
    by (simp add: evals)
  from u[where r = 1, THEN conjunct2, THEN conjunct2, THEN conjunct2, THEN conjunct1]
  have l: "get_elem_residual (snd (element_time_derivative example_system False skew_context)) 1 0 =
     1500 / 13"
    by (simp add: evals)
  from u[where r = 1, THEN conjunct2, THEN conjunct2, THEN conjunct2, THEN conjunct2, THEN conjunct1] l
  have n: "get_elem_residual (snd (element_time_derivative example_system True skew_context)) 1 0 =
     1500 / 13"
    by simp
  from d inj a b c e f g h k l n show ?thesis by simp
qed

text \<open>
  On the stretched example element the first component gets the stress term
  \<open>\<tau>(0,0) = elasticity(0,0,0,0) = \<lambda>\<^sub>1 + 2 \<lambda>\<^sub>2\<close>, and the second gets nothing.
\<close>

lemma stretched_element_residual:
  "get_elem_residual (snd (element_time_derivative example_system False stretched_context)) 0 0 =
     1750 / 13"
  "get_elem_residual (snd (element_time_derivative example_system False stretched_context)) 1 0 = 0"
proof -
  have d: "1 \<le> dim_sys example_system" "dim_sys example_system \<le> 3"
    by (simp_all add: example_system_def)
  show "get_elem_residual (snd (element_time_derivative example_system False stretched_context)) 0 0 =
     1750 / 13"
    unfolding element_time_derivative_residual[OF d]
    by (simp add: example_defs residual_integrand_def stress_def grad_U_at_def
        elasticity_tensor_def kronecker_delta_def Let_def)
  show "get_elem_residual (snd (element_time_derivative example_system False stretched_context)) 1 0 = 0"
    unfolding element_time_derivative_residual[OF d]
    by (simp add: example_defs residual_integrand_def stress_def grad_U_at_def
        elasticity_tensor_def kronecker_delta_def Let_def)
qed

text \<open>
  The loop over \<^verbatim>\<open>alpha\<close> subtracts the body force term once per pass, that is
  \<^verbatim>\<open>_dim\<close> times, where the specification has it once.
\<close>

lemma alpha_loop_body_force_count:
  "(\<Sum>\<alpha><dim_sys sys. residual_integrand sys c qp i m \<alpha>) =
   specified_residual_term sys c qp i m -
   (real (dim_sys sys) - 1) * (body_force m * get_phi (get_element_fe c (u_var sys)) i qp) *
   get_JxW (get_element_fe c (u_var sys)) qp"
  by (simp add: residual_integrand_def specified_residual_term_def sum_subtractf
      sum_distrib_left algebra_simps)

text \<open>
  Claim C1. The specification has each quadrature point add
  \<open>(\<Sum>\<^sub>\<alpha> \<tau>(m,\<alpha>) \<nabla>\<phi>\<^sub>i(\<alpha>) - bodyforce(m) \<phi>\<^sub>i) JxW[qp]\<close> to the residual of component \<open>m\<close>. On the
  three-dimensional example element at rest that term is 1 for the third component, and
  the code adds 3: the body force is counted once per pass of the loop over \<^verbatim>\<open>alpha\<close>.
\<close>

theorem element_time_derivative_body_force_thrice:
  "get_elem_residual (snd (element_time_derivative example_system False (example_context {}))) 2 0 =
     get_elem_residual (example_context {}) 2 0 + 3 \<and>
   specified_residual_term example_system (example_context {}) 0 0 2 = 1"
proof -
  have d: "1 \<le> dim_sys example_system" "dim_sys example_system \<le> 3"
    by (simp_all add: example_system_def)
  show ?thesis
    unfolding element_time_derivative_residual[OF d]
    by (simp add: example_defs residual_integrand_def specified_residual_term_def stress_def
        grad_U_at_def)
qed

text \<open>
  Claim C4, as stated, fails: on the three-dimensional example element the displacement
  gradient is zero at the one quadrature point, and the residual of the third component
  changes, because the body force acts on it.
\<close>

theorem zero_gradient_residual_counterexample:
  "interior_gradient (example_context {}) (u_var example_system) 0 = zero_gradient \<and>
   interior_gradient (example_context {}) (v_var example_system) 0 = zero_gradient \<and>
   interior_gradient (example_context {}) (w_var example_system) 0 = zero_gradient \<and>
   element_qrule_n_points (example_context {}) = 1 \<and>
   dim_sys example_system = 3 \<and>
   get_elem_residual (snd (element_time_derivative example_system False (example_context {})))
     (get_second_order_dot_var example_system (w_var example_system)) 0 -
   get_elem_residual (example_context {})
     (get_second_order_dot_var example_system (w_var example_system)) 0 \<noteq> 0"
proof -
  have d: "1 \<le> dim_sys example_system" "dim_sys example_system \<le> 3"
    by (simp_all add: example_system_def)
  show ?thesis
    unfolding element_time_derivative_residual[OF d]
    by (simp add: example_defs residual_integrand_def stress_def grad_U_at_def)
qed

text \<open>
  Claim C4, amended. If the displacement gradient \<open>\<nabla>U\<close> is zero at every quadrature
  point, the interior assembler leaves unchanged every dof of every residual block other
  than the rate block of the third component in three dimensions, the one component with
  a body force: all blocks in dimension 1 or 2, and in dimension 3 the blocks that are
  not the third component's.
\<close>

theorem zero_gradient_residual:
  assumes "1 \<le> dim_sys sys" "dim_sys sys \<le> 3"
    and "\<forall>qp<element_qrule_n_points c. \<forall>k<dim_sys sys. \<forall>l<dim_sys sys. grad_U_at sys c qp k l = 0"
    and "dim_sys sys < 3 \<or> r \<noteq> dot_var sys 2"
  shows "get_elem_residual (snd (element_time_derivative sys rj c)) r i = get_elem_residual c r i"
proof -
  have s0: "stress sys c qp m \<alpha> = 0" if "qp < element_qrule_n_points c" for qp m \<alpha>
    unfolding stress_def using assms(3) that by simp
  have "(if r = dot_var sys m then \<Sum>\<alpha><dim_sys sys. residual_integrand sys c qp i m \<alpha> else 0) = 0"
    if "qp < element_qrule_n_points c" "m < dim_sys sys" for qp m
  proof (cases "r = dot_var sys m")
    case True
    with assms(4) that(2) assms(2) have "m < 2" by (cases "m = 2") auto
    then have "body_force m = 0" by (auto simp add: body_force_def VectorValue_def)
    then show ?thesis by (simp add: residual_integrand_def s0[OF that(1)])
  qed simp
  then show ?thesis
    unfolding element_time_derivative_residual[OF assms(1,2)] by simp
qed

theorem zero_gradient_residual_witness:
  "1 \<le> dim_sys example_system \<and> dim_sys example_system \<le> 3 \<and>
   grad_U_at example_system (example_context {}) 0 2 1 = 0 \<and>
   (0::nat) \<noteq> dot_var example_system 2 \<and>
   get_elem_residual (snd (element_time_derivative example_system True (example_context {}))) 0 0 =
     get_elem_residual (example_context {}) 0 0"
proof -
  have d: "1 \<le> dim_sys example_system" "dim_sys example_system \<le> 3"
    by (simp_all add: example_system_def)
  have g: "\<forall>qp<element_qrule_n_points (example_context {}). \<forall>k<dim_sys example_system.
      \<forall>l<dim_sys example_system. grad_U_at example_system (example_context {}) qp k l = 0"
    by (simp add: grad_U_at_def example_context_def zero_gradient_def)
  have r: "dim_sys example_system < 3 \<or> (0::nat) \<noteq> dot_var example_system 2"
    by (simp add: example_defs)
  from zero_gradient_residual[OF d g r, of True 0] g r d show ?thesis
    by (simp add: example_defs grad_U_at_def)
qed

section \<open>The boundary assembler: residual and Jacobian\<close>

lemma frame_side_dof [simp]: "frame (side_dof sys traction qp i c) = frame c"
  by (simp add: side_dof_def Let_def)

lemma jacobian_side_dof [simp]:
  "get_elem_jacobian (side_dof sys traction qp i c) = get_elem_jacobian c"
  by (simp add: side_dof_def Let_def)

lemma residual_side_dof:
  assumes "1 \<le> dim_sys sys" "dim_sys sys \<le> 3"
  shows "get_elem_residual (side_dof sys traction qp i c) r i' =
     get_elem_residual c r i' +
     only_if (i = i')
       (- (\<Sum>m<dim_sys sys. only_if (r = dot_var sys m) (side_term sys c traction qp i' m)))"
proof -
  note defs = side_dof_def Let_def disp_var_def dot_var_def side_term_def
          lessThan_Suc numeral_3_eq_3 numeral_2_eq_2 residual_sub_residual
  show ?thesis
  proof (cases "i = i'")
    case True
    from dim_cases[OF assms(2)] assms(1) show ?thesis
      by (elim disjE) (simp_all add: defs True)
  next
    case False
    from dim_cases[OF assms(2)] assms(1) show ?thesis
      by (elim disjE) (simp_all add: defs False del: sum_only_if)
  qed
qed

lemma side_term_frame:
  assumes "frame s = frame c"
  shows "side_term sys s = side_term sys c"
  by (intro ext) (simp add: side_term_def frame_reads[OF assms])

lemma residual_side_dof_loop:
  assumes "1 \<le> dim_sys sys" "dim_sys sys \<le> 3" "frame s = frame c"
  shows "get_elem_residual (fold (side_dof sys traction qp) [0..<n] s) r i' =
     get_elem_residual s r i' +
     only_if (i' < n)
       (- (\<Sum>m<dim_sys sys. only_if (r = dot_var sys m) (side_term sys c traction qp i' m)))"
proof (rule ctx_loop_hit[where c = c and p = "\<lambda>s. get_elem_residual s r i'"])
  fix a s assume fr: "frame s = frame c"
  show "get_elem_residual (side_dof sys traction qp a s) r i' =
    get_elem_residual s r i' +
    only_if (a = i')
      (- (\<Sum>m<dim_sys sys. only_if (r = dot_var sys m) (side_term sys c traction qp i' m)))"
    using residual_side_dof[OF assms(1,2), of traction qp a s r i']
    by (simp add: side_term_frame[OF fr])
qed (simp_all add: assms)

lemma frame_side_qp [simp]: "frame (snd (side_qp sys P pf qp st)) = frame (snd st)"
  unfolding side_qp_def Let_def snd_conv
  by (intro fold_preserves) simp

lemma jacobian_side_qp [simp]:
  "get_elem_jacobian (snd (side_qp sys P pf qp st)) = get_elem_jacobian (snd st)"
  unfolding side_qp_def Let_def snd_conv
  by (intro fold_preserves) simp

lemma traction_side_qp:
  "fst (side_qp sys P pf qp st) =
     (if pf then scale_vector P (get_normals (get_side_fe (snd st) (u_var sys)) qp) else fst st)"
  by (simp add: side_qp_def Let_def)

lemma residual_side_qp:
  assumes "1 \<le> dim_sys sys" "dim_sys sys \<le> 3" "frame (snd st) = frame c"
  shows "get_elem_residual (snd (side_qp sys P pf qp st)) r i' =
     get_elem_residual (snd st) r i' +
     only_if (i' < n_dof_indices c (u_var sys))
       (- (\<Sum>m<dim_sys sys. only_if (r = dot_var sys m)
            (side_term sys c
               (if pf then scale_vector P (get_normals (get_side_fe c (u_var sys)) qp) else fst st)
               qp i' m)))"
  unfolding side_qp_def Let_def snd_conv frame_reads[OF assms(3)]
  by (rule residual_side_dof_loop[OF assms])

lemma residual_side_qp_loop:
  assumes "1 \<le> dim_sys sys" "dim_sys sys \<le> 3"
  shows "get_elem_residual (snd (fold (side_qp sys P pf) [0..<n] (t0, c))) r i' =
     get_elem_residual c r i' +
     (\<Sum>qp<n. only_if (i' < n_dof_indices c (u_var sys))
       (- (\<Sum>m<dim_sys sys. only_if (r = dot_var sys m)
            (side_term sys c
               (if pf then scale_vector P (get_normals (get_side_fe c (u_var sys)) qp) else t0)
               qp i' m))))"
proof -
  have "get_elem_residual (snd (fold (side_qp sys P pf) [0..<n] (t0, c))) r i' =
     get_elem_residual (snd (t0, c)) r i' +
     (\<Sum>qp<n. only_if (i' < n_dof_indices c (u_var sys))
       (- (\<Sum>m<dim_sys sys. only_if (r = dot_var sys m)
            (side_term sys c
               (if pf then scale_vector P (get_normals (get_side_fe c (u_var sys)) qp) else t0)
               qp i' m))))"
  proof (rule for_loop_sum[where I = "\<lambda>st. frame (snd st) = frame c \<and> (\<not> pf \<longrightarrow> fst st = t0)"
        and p = "\<lambda>st. get_elem_residual (snd st) r i'"])
    show "frame (snd (t0, c)) = frame c \<and> (\<not> pf \<longrightarrow> fst (t0, c) = t0)" by simp
  next
    fix a st assume "frame (snd st) = frame c \<and> (\<not> pf \<longrightarrow> fst st = t0)"
    then show "frame (snd (side_qp sys P pf a st)) = frame c \<and>
        (\<not> pf \<longrightarrow> fst (side_qp sys P pf a st) = t0)"
      by (simp add: traction_side_qp)
  next
    fix a st assume I: "frame (snd st) = frame c \<and> (\<not> pf \<longrightarrow> fst st = t0)"
    then have fr: "frame (snd st) = frame c" and t: "\<not> pf \<Longrightarrow> fst st = t0" by simp_all
    have "(if pf then scale_vector P (get_normals (get_side_fe c (u_var sys)) a) else fst st) =
          (if pf then scale_vector P (get_normals (get_side_fe c (u_var sys)) a) else t0)"
      using t by simp
    with residual_side_qp[OF assms fr, of P pf a r i']
    show "get_elem_residual (snd (side_qp sys P pf a st)) r i' =
      get_elem_residual (snd st) r i' +
      only_if (i' < n_dof_indices c (u_var sys))
       (- (\<Sum>m<dim_sys sys. only_if (r = dot_var sys m)
            (side_term sys c
               (if pf then scale_vector P (get_normals (get_side_fe c (u_var sys)) a) else t0)
               a i' m)))"
      by simp
  qed
  then show ?thesis by simp
qed

text \<open>What the boundary assembler does to a residual block, in closed form.\<close>

lemma side_time_derivative_residual:
  assumes "1 \<le> dim_sys sys" "dim_sys sys \<le> 3"
  shows "get_elem_residual (snd (side_time_derivative sys rj c)) r i =
     get_elem_residual c r i -
     (if (has_side_boundary_id c (traction_boundary_id sys) \<or>
          has_side_boundary_id c (pressure_boundary_id sys)) \<and> i < n_dof_indices c (u_var sys)
      then \<Sum>qp<side_qrule_n_points c. \<Sum>m<dim_sys sys.
             if r = dot_var sys m then side_term sys c (side_load sys c qp) qp i m else 0
      else 0)"
proof (cases "has_side_boundary_id c (traction_boundary_id sys) \<or>
          has_side_boundary_id c (pressure_boundary_id sys)")
  case False
  then show ?thesis by (simp add: side_time_derivative_def)
next
  case True
  have "(\<Sum>qp<side_qrule_n_points c. only_if (i < n_dof_indices c (u_var sys))
       (- (\<Sum>m<dim_sys sys. only_if (r = dot_var sys m)
            (side_term sys c (side_load sys c qp) qp i m)))) =
     - (if i < n_dof_indices c (u_var sys)
      then \<Sum>qp<side_qrule_n_points c. \<Sum>m<dim_sys sys.
             if r = dot_var sys m then side_term sys c (side_load sys c qp) qp i m else 0
      else 0)"
    by (simp add: only_if_def sum_negf)
  then show ?thesis
    using True residual_side_qp_loop[OF assms, of 100 "has_side_boundary_id c (pressure_boundary_id sys)"
        "side_qrule_n_points c" "set_coord (unsigned_pred (dim_sys sys)) (- 1) zero_gradient" c r i]
    by (simp add: side_time_derivative_def Let_def side_load_def if_distrib[of "\<lambda>l. side_term sys c l _ _ _"])
qed

lemma side_time_derivative_jacobian:
  "get_elem_jacobian (snd (side_time_derivative sys rj c)) = get_elem_jacobian c"
proof -
  have "get_elem_jacobian (snd (fold (side_qp sys P pf) xs st)) = get_elem_jacobian (snd st)"
    for P pf xs st
    by (rule fold_preserves[where g = "\<lambda>st. get_elem_jacobian (snd st)"]) simp
  then show ?thesis by (simp add: side_time_derivative_def Let_def)
qed

text \<open>
  Claim C7. On a side that carries the pressure id the load at each quadrature point is
  the pressure magnitude 100 times the face normal there, and the residual of each active
  component \<open>m\<close> loses \<open>load(m) \<phi>\<^sub>i JxW[qp]\<close> for each local test function and quadrature
  point. On a face with normal \<open>(0, 0, 1)\<close> a pressure magnitude \<open>P\<close> gives the load
  \<open>(0, 0, P)\<close>.
\<close>

theorem pressure_face_load:
  assumes "1 \<le> dim_sys sys" "dim_sys sys \<le> 3"
    and "has_side_boundary_id c (pressure_boundary_id sys)"
  shows "get_elem_residual (snd (side_time_derivative sys rj c)) r i =
           get_elem_residual c r i -
           (if i < n_dof_indices c (u_var sys)
            then \<Sum>qp<side_qrule_n_points c. \<Sum>m<dim_sys sys.
                   if r = dot_var sys m
                   then scale_vector 100 (get_normals (get_side_fe c (u_var sys)) qp) m *
                        get_phi (get_side_fe c (u_var sys)) i qp *
                        get_JxW (get_side_fe c (u_var sys)) qp
                   else 0
            else 0)
       \<and> fst (side_qp sys 100 (has_side_boundary_id c (pressure_boundary_id sys)) qp (t, c)) =
           scale_vector 100 (get_normals (get_side_fe c (u_var sys)) qp)
       \<and> (get_normals (get_side_fe c (u_var sys)) qp = VectorValue 0 0 1 \<longrightarrow>
            fst (side_qp sys P (has_side_boundary_id c (pressure_boundary_id sys)) qp (t, c)) =
            VectorValue 0 0 P)"
proof -
  have l: "side_load sys c qp = scale_vector 100 (get_normals (get_side_fe c (u_var sys)) qp)" for qp
    using assms(3) by (simp add: side_load_def)
  have a: "get_elem_residual (snd (side_time_derivative sys rj c)) r i =
           get_elem_residual c r i -
           (if i < n_dof_indices c (u_var sys)
            then \<Sum>qp<side_qrule_n_points c. \<Sum>m<dim_sys sys.
                   if r = dot_var sys m
                   then scale_vector 100 (get_normals (get_side_fe c (u_var sys)) qp) m *
                        get_phi (get_side_fe c (u_var sys)) i qp *
                        get_JxW (get_side_fe c (u_var sys)) qp
                   else 0
            else 0)"
    using assms(3) by (simp add: side_time_derivative_residual[OF assms(1,2)] side_term_def l cong: if_cong)
  have b: "scale_vector P (VectorValue 0 0 1) = VectorValue 0 0 P"
    by (auto simp add: scale_vector_def VectorValue_def)
  from a b assms(3) show ?thesis by (simp add: traction_side_qp)
qed

theorem pressure_face_load_witness:
  "1 \<le> dim_sys example_system \<and> dim_sys example_system \<le> 3 \<and>
   has_side_boundary_id (example_context {31}) (pressure_boundary_id example_system) \<and>
   get_normals (get_side_fe (example_context {31}) (u_var example_system)) 0 = VectorValue 0 0 1 \<and>
   fst (side_qp example_system 100 True 0 (zero_gradient, example_context {31})) = VectorValue 0 0 100 \<and>
   get_elem_residual (snd (side_time_derivative example_system False (example_context {31}))) 2 0 = - 100 \<and>
   get_elem_residual (snd (side_time_derivative example_system False (example_context {31}))) 0 0 = 0"
proof -
  have d: "1 \<le> dim_sys example_system" "dim_sys example_system \<le> 3"
    by (simp_all add: example_system_def)
  have p: "has_side_boundary_id (example_context {31}) (pressure_boundary_id example_system)"
    by (simp add: has_side_boundary_id_def example_context_def example_system_def)
  have n: "get_normals (get_side_fe (example_context {31}) (u_var example_system)) 0 = VectorValue 0 0 1"
    by (simp add: example_context_def example_fe_def)
  note t = pressure_face_load[OF d p, where qp = 0 and t = zero_gradient and P = 100]
  from t[of False 2 0] p n
  have a: "fst (side_qp example_system 100 True 0 (zero_gradient, example_context {31})) = VectorValue 0 0 100"
    by (auto simp add: scale_vector_def VectorValue_def)
  from t[of False 2 0]
  have b: "get_elem_residual (snd (side_time_derivative example_system False (example_context {31}))) 2 0 = - 100"
    by (simp add: example_defs scale_vector_def)
  from t[of False 0 0]
  have c: "get_elem_residual (snd (side_time_derivative example_system False (example_context {31}))) 0 0 = 0"
    by (simp add: example_defs scale_vector_def)
  from d p n a b c show ?thesis by simp
qed

text \<open>
  Claim C8, as stated, fails in its second half: asked for a Jacobian on a pressure face,
  the boundary assembler returns \<open>True\<close>, which tells the caller that the Jacobian
  contribution has been computed; it does not report that there is none.
\<close>

theorem side_time_derivative_reports_counterexample:
  "has_side_boundary_id (example_context {31}) (pressure_boundary_id example_system) \<and>
   fst (side_time_derivative example_system True (example_context {31})) = True"
  by (simp add: side_time_derivative_def has_side_boundary_id_def example_context_def
      example_system_def Let_def)

text \<open>
  Claim C8, amended. The boundary assembler never writes a Jacobian block, and the flag it
  returns is the request flag: it reports its (zero) Jacobian contribution as computed
  exactly when a Jacobian was requested.
\<close>

theorem side_time_derivative_no_jacobian:
  assumes "1 \<le> dim_sys sys" "dim_sys sys \<le> 3"
  shows "get_elem_jacobian (snd (side_time_derivative sys request_jacobian c)) = get_elem_jacobian c \<and>
    fst (side_time_derivative sys request_jacobian c) = request_jacobian"
  by (simp add: side_time_derivative_jacobian) (simp add: side_time_derivative_def Let_def)

theorem side_time_derivative_no_jacobian_witness:
  "1 \<le> dim_sys example_system \<and> dim_sys example_system \<le> 3 \<and>
   get_elem_jacobian (snd (side_time_derivative example_system True (example_context {31}))) 2 2 0 0 = 0 \<and>
   fst (side_time_derivative example_system True (example_context {31})) = True \<and>
   fst (side_time_derivative example_system False (example_context {31})) = False"
proof -
  have d: "1 \<le> dim_sys example_system" "dim_sys example_system \<le> 3"
    by (simp_all add: example_system_def)
  from side_time_derivative_no_jacobian[OF d, of True "example_context {31}"]
    side_time_derivative_no_jacobian[OF d, of False "example_context {31}"] d
  show ?thesis by (simp add: example_context_def)
qed

text \<open>
  Claim C10. On a side that carries both the traction id and the pressure id the boundary
  assembler applies the pressure load alone. The residual it leaves is the one of the same
  side with the pressure id only; the loop body overwrites the traction it receives before
  it accumulates, so its result does not depend on that traction; and the residual loses
  \<open>100 normal(m) \<phi>\<^sub>i JxW[qp]\<close>, with no term from the default traction.
\<close>

theorem doubly_tagged_face:
  assumes "1 \<le> dim_sys sys" "dim_sys sys \<le> 3"
    and "has_side_boundary_id c (traction_boundary_id sys)"
    and "has_side_boundary_id c (pressure_boundary_id sys)"
  shows "get_elem_residual (snd (side_time_derivative sys rj c)) =
           get_elem_residual (snd (side_time_derivative sys rj
              (c\<lparr>side_boundary_ids := {pressure_boundary_id sys}\<rparr>)))
       \<and> side_qp sys P (has_side_boundary_id c (pressure_boundary_id sys)) qp (t, s) =
         side_qp sys P (has_side_boundary_id c (pressure_boundary_id sys)) qp (t', s)
       \<and> get_elem_residual (snd (side_time_derivative sys rj c)) r i =
           get_elem_residual c r i -
           (if i < n_dof_indices c (u_var sys)
            then \<Sum>qp<side_qrule_n_points c. \<Sum>m<dim_sys sys.
                   if r = dot_var sys m
                   then 100 * get_normals (get_side_fe c (u_var sys)) qp m *
                        get_phi (get_side_fe c (u_var sys)) i qp *
                        get_JxW (get_side_fe c (u_var sys)) qp
                   else 0
            else 0)"
proof -
  let ?c = "c\<lparr>side_boundary_ids := {pressure_boundary_id sys}\<rparr>"
  have l: "side_load sys ?c qp = side_load sys c qp" for qp
    using assms(4) by (simp add: side_load_def has_side_boundary_id_def)
  have t: "side_term sys ?c ld qp i m = side_term sys c ld qp i m" for ld qp i m
    by (simp add: side_term_def)
  have a: "get_elem_residual (snd (side_time_derivative sys rj c)) =
           get_elem_residual (snd (side_time_derivative sys rj ?c))"
    using assms(4)
    by (intro ext) (simp add: side_time_derivative_residual[OF assms(1,2)] l t has_side_boundary_id_def
        cong: if_cong)
  have b: "side_qp sys P True qp (t, s) = side_qp sys P True qp (t', s)"
    by (simp add: side_qp_def Let_def)
  have c: "get_elem_residual (snd (side_time_derivative sys rj c)) r i =
           get_elem_residual c r i -
           (if i < n_dof_indices c (u_var sys)
            then \<Sum>qp<side_qrule_n_points c. \<Sum>m<dim_sys sys.
                   if r = dot_var sys m
                   then 100 * get_normals (get_side_fe c (u_var sys)) qp m *
                        get_phi (get_side_fe c (u_var sys)) i qp *
                        get_JxW (get_side_fe c (u_var sys)) qp
                   else 0
            else 0)"
    using assms(4)
    by (simp add: side_time_derivative_residual[OF assms(1,2)] side_term_def side_load_def
        scale_vector_def cong: if_cong)
  from a b c assms(4) show ?thesis by simp
qed

theorem doubly_tagged_face_witness:
  "1 \<le> dim_sys example_system \<and> dim_sys example_system \<le> 3 \<and>
   has_side_boundary_id (example_context {30, 31}) (traction_boundary_id example_system) \<and>
   has_side_boundary_id (example_context {30, 31}) (pressure_boundary_id example_system) \<and>
   get_elem_residual (snd (side_time_derivative example_system False (example_context {30, 31}))) 2 0 = - 100"
proof -
  have d: "1 \<le> dim_sys example_system" "dim_sys example_system \<le> 3"
    by (simp_all add: example_system_def)
  have p: "has_side_boundary_id (example_context {30, 31}) (traction_boundary_id example_system)"
     "has_side_boundary_id (example_context {30, 31}) (pressure_boundary_id example_system)"
    by (simp_all add: has_side_boundary_id_def example_context_def example_system_def)
  from doubly_tagged_face[OF d p, where rj = False and r = 2 and i = 0, THEN conjunct2, THEN conjunct2]
  have "get_elem_residual (snd (side_time_derivative example_system False (example_context {30, 31}))) 2 0 = - 100"
    by (simp add: example_defs)
  with d p show ?thesis by simp
qed

text \<open>For contrast: the same face with the traction id alone gets the default traction.\<close>

lemma traction_only_face:
  "get_elem_residual (snd (side_time_derivative example_system False (example_context {30}))) 2 0 = 1"
proof -
  have d: "1 \<le> dim_sys example_system" "dim_sys example_system \<le> 3"
    by (simp_all add: example_system_def)
  show ?thesis
    unfolding side_time_derivative_residual[OF d]
    by (simp add: example_defs side_term_def side_load_def has_side_boundary_id_def
        set_coord_def unsigned_pred_def)
qed

section \<open>The mass assembler: residual and Jacobian\<close>

lemma frame_mass_jacobian_j [simp]: "frame (mass_jacobian_j sys qp i j c) = frame c"
  by (simp add: mass_jacobian_j_def Let_def)

lemma residual_mass_jacobian_j [simp]:
  "get_elem_residual (mass_jacobian_j sys qp i j c) = get_elem_residual c"
  by (simp add: mass_jacobian_j_def Let_def)

lemma frame_mass_dof_residual [simp]:
  "frame (mass_dof_residual sys u_ddot v_ddot w_ddot qp i c) = frame c"
  by (simp add: mass_dof_residual_def Let_def)

lemma jacobian_mass_dof_residual [simp]:
  "get_elem_jacobian (mass_dof_residual sys u_ddot v_ddot w_ddot qp i c) = get_elem_jacobian c"
  by (simp add: mass_dof_residual_def Let_def)

lemma frame_mass_dof [simp]: "frame (mass_dof sys rj u_ddot v_ddot w_ddot qp i c) = frame c"
  unfolding mass_dof_def Let_def
  by (simp add: fold_preserves[where g = frame])

lemma residual_mass_dof [simp]:
  "get_elem_residual (mass_dof sys rj u_ddot v_ddot w_ddot qp i c) =
   get_elem_residual (mass_dof_residual sys u_ddot v_ddot w_ddot qp i c)"
  unfolding mass_dof_def Let_def
  by (simp add: fold_preserves[where g = get_elem_residual])

lemma frame_mass_qp [simp]: "frame (mass_qp sys rj qp c) = frame c"
  unfolding mass_qp_def Let_def
  by (intro fold_preserves) simp

lemma jacobian_mass_jacobian_j:
  assumes "1 \<le> dim_sys sys" "dim_sys sys \<le> 3"
  shows "get_elem_jacobian (mass_jacobian_j sys qp i j c) r cv i' j' =
     get_elem_jacobian c r cv i' j' +
     only_if (j = j') (only_if (i = i')
        (\<Sum>m<dim_sys sys. only_if (r = dot_var sys m \<and> cv = dot_var sys m)
           (mass_jacobian_term sys c qp i' j')))"
proof -
  note defs = mass_jacobian_j_def Let_def disp_var_def dot_var_def
          lessThan_Suc numeral_3_eq_3 numeral_2_eq_2 jacobian_add_jacobian mass_jacobian_term_def
  show ?thesis
  proof (cases "i' = i \<and> j' = j")
    case True
    then have [simp]: "i' = i" "j' = j" by auto
    from dim_cases[OF assms(2)] assms(1) show ?thesis
      by (elim disjE) (simp_all add: defs del: sum_only_if)
  next
    case False
    then have [simp]: "\<And>x. only_if (i' = i \<and> j' = j) x = 0"
      "\<And>x. only_if (j = j') (only_if (i = i') x) = 0" by (auto simp add: only_if_def)
    from dim_cases[OF assms(2)] assms(1) show ?thesis
      by (elim disjE) (simp_all add: defs del: sum_only_if)
  qed
qed

lemma mass_jacobian_term_frame:
  assumes "frame s = frame c"
  shows "mass_jacobian_term sys s = mass_jacobian_term sys c"
  by (intro ext) (simp add: mass_jacobian_term_def frame_reads[OF assms])

lemma jacobian_mass_j_loop:
  assumes "1 \<le> dim_sys sys" "dim_sys sys \<le> 3" "frame s = frame c"
  shows "get_elem_jacobian (fold (mass_jacobian_j sys qp i) [0..<n] s) r cv i' j' =
     get_elem_jacobian s r cv i' j' +
     only_if (j' < n) (only_if (i = i')
        (\<Sum>m<dim_sys sys. only_if (r = dot_var sys m \<and> cv = dot_var sys m)
           (mass_jacobian_term sys c qp i' j')))"
proof (rule ctx_loop_hit[where c = c and p = "\<lambda>s. get_elem_jacobian s r cv i' j'"])
  fix a s assume fr: "frame s = frame c"
  show "get_elem_jacobian (mass_jacobian_j sys qp i a s) r cv i' j' =
    get_elem_jacobian s r cv i' j' +
    only_if (a = j') (only_if (i = i')
        (\<Sum>m<dim_sys sys. only_if (r = dot_var sys m \<and> cv = dot_var sys m)
           (mass_jacobian_term sys c qp i' j')))"
    using jacobian_mass_jacobian_j[OF assms(1,2), of qp i a s r cv i' j']
    by (simp only: mass_jacobian_term_frame[OF fr])
qed (simp_all add: assms)

lemma jacobian_mass_dof:
  assumes "1 \<le> dim_sys sys" "dim_sys sys \<le> 3" "frame s = frame c"
  shows "get_elem_jacobian (mass_dof sys rj u_ddot v_ddot w_ddot qp i s) r cv i' j' =
     get_elem_jacobian s r cv i' j' +
     only_if (i = i') (only_if (rj \<and> j' < n_dof_indices c (dot_var sys 0))
        (\<Sum>m<dim_sys sys. only_if (r = dot_var sys m \<and> cv = dot_var sys m)
           (mass_jacobian_term sys c qp i' j')))"
proof (cases rj)
  case False
  then show ?thesis by (simp add: mass_dof_def Let_def)
next
  case True
  have fr: "frame (mass_dof_residual sys u_ddot v_ddot w_ddot qp i s) = frame c"
    using assms(3) by simp
  have n: "n_dof_indices s (get_second_order_dot_var sys (u_var sys)) = n_dof_indices c (dot_var sys 0)"
    by (simp add: frame_reads[OF assms(3)] dot_var_def disp_var_def)
  show ?thesis
    using True jacobian_mass_j_loop[OF assms(1,2) fr, of qp i "n_dof_indices c (dot_var sys 0)" r cv i' j']
    by (simp add: mass_dof_def Let_def n only_if_def del: sum_only_if)
qed

lemma residual_mass_dof_residual:
  assumes "1 \<le> dim_sys sys" "dim_sys sys \<le> 3"
  shows "get_elem_residual (mass_dof_residual sys (acc 0) (acc 1) (acc 2) qp i c) r i' =
     get_elem_residual c r i' +
     only_if (i = i')
       (\<Sum>m<dim_sys sys. only_if (r = dot_var sys m)
          (rho sys * acc m * get_phi (get_element_fe c (dot_var sys 0)) i' qp *
           get_JxW (get_element_fe c (dot_var sys 0)) qp))"
proof -
  note defs = mass_dof_residual_def Let_def disp_var_def dot_var_def
          lessThan_Suc numeral_3_eq_3 numeral_2_eq_2 residual_add_residual
  show ?thesis
  proof (cases "i = i'")
    case True
    from dim_cases[OF assms(2)] assms(1) show ?thesis
      by (elim disjE) (simp_all add: defs True)
  next
    case False
    from dim_cases[OF assms(2)] assms(1) show ?thesis
      by (elim disjE) (simp_all add: defs False del: sum_only_if)
  qed
qed

lemma mass_accelerations:
  assumes "dim_sys sys \<le> 3"
  shows "(\<Sum>m<dim_sys sys. only_if (r = dot_var sys m)
          (rho sys *
           (\<lambda>m::nat. if m = 0 then interior_accel c (get_second_order_dot_var sys (u_var sys)) qp
                else if m = 1 then (if 1 < dim_sys sys
                       then interior_accel c (get_second_order_dot_var sys (v_var sys)) qp else 0)
                else (if 2 < dim_sys sys
                       then interior_accel c (get_second_order_dot_var sys (w_var sys)) qp else 0)) m *
           get_phi (get_element_fe c (dot_var sys 0)) i qp *
           get_JxW (get_element_fe c (dot_var sys 0)) qp)) =
         (\<Sum>m<dim_sys sys. only_if (r = dot_var sys m) (mass_residual_term sys c qp i m))"
  using dim_cases[OF assms]
  by (elim disjE)
     (simp_all add: mass_residual_term_def dot_var_def disp_var_def lessThan_Suc
       numeral_3_eq_3 numeral_2_eq_2)

lemma residual_mass_qp:
  assumes "1 \<le> dim_sys sys" "dim_sys sys \<le> 3" "frame s = frame c"
  shows "get_elem_residual (mass_qp sys rj qp s) r i' =
     get_elem_residual s r i' +
     only_if (i' < n_dof_indices c (dot_var sys 0))
       (\<Sum>m<dim_sys sys. only_if (r = dot_var sys m) (mass_residual_term sys c qp i' m))"
proof -
  let ?acc = "\<lambda>m::nat. if m = 0 then interior_accel c (get_second_order_dot_var sys (u_var sys)) qp
                else if m = 1 then (if 1 < dim_sys sys
                       then interior_accel c (get_second_order_dot_var sys (v_var sys)) qp else 0)
                else (if 2 < dim_sys sys
                       then interior_accel c (get_second_order_dot_var sys (w_var sys)) qp else 0)"
  have e: "mass_qp sys rj qp s =
      fold (mass_dof sys rj (?acc 0) (?acc 1) (?acc 2) qp) [0..<n_dof_indices c (dot_var sys 0)] s"
    by (simp add: mass_qp_def Let_def frame_reads[OF assms(3)] dot_var_def disp_var_def)
  have "get_elem_residual
          (fold (mass_dof sys rj (?acc 0) (?acc 1) (?acc 2) qp) [0..<n_dof_indices c (dot_var sys 0)] s) r i' =
     get_elem_residual s r i' +
     only_if (i' < n_dof_indices c (dot_var sys 0))
       (\<Sum>m<dim_sys sys. only_if (r = dot_var sys m)
          (rho sys * ?acc m * get_phi (get_element_fe c (dot_var sys 0)) i' qp *
           get_JxW (get_element_fe c (dot_var sys 0)) qp))"
  proof (rule ctx_loop_hit[where c = c and p = "\<lambda>s. get_elem_residual s r i'"])
    fix a s assume fr: "frame s = frame c"
    show "get_elem_residual (mass_dof sys rj (?acc 0) (?acc 1) (?acc 2) qp a s) r i' =
      get_elem_residual s r i' +
      only_if (a = i')
       (\<Sum>m<dim_sys sys. only_if (r = dot_var sys m)
          (rho sys * ?acc m * get_phi (get_element_fe c (dot_var sys 0)) i' qp *
           get_JxW (get_element_fe c (dot_var sys 0)) qp))"
      unfolding residual_mass_dof
      using residual_mass_dof_residual[OF assms(1,2), of ?acc qp a s r i']
      by (simp only: frame_reads[OF fr])
  qed (simp_all add: assms)
  then show ?thesis
    unfolding e mass_accelerations[OF assms(2)] .
qed

lemma jacobian_mass_qp:
  assumes "1 \<le> dim_sys sys" "dim_sys sys \<le> 3" "frame s = frame c"
  shows "get_elem_jacobian (mass_qp sys rj qp s) r cv i' j' =
     get_elem_jacobian s r cv i' j' +
     only_if (rj \<and> i' < n_dof_indices c (dot_var sys 0) \<and> j' < n_dof_indices c (dot_var sys 0))
       (\<Sum>m<dim_sys sys. only_if (r = dot_var sys m \<and> cv = dot_var sys m)
           (mass_jacobian_term sys c qp i' j'))"
proof -
  let ?n = "n_dof_indices c (dot_var sys 0)"
  have n: "n_dof_indices s (get_second_order_dot_var sys (u_var sys)) = ?n"
    by (simp add: frame_reads[OF assms(3)] dot_var_def disp_var_def)
  have "get_elem_jacobian (mass_qp sys rj qp s) r cv i' j' =
     get_elem_jacobian s r cv i' j' +
     only_if (i' < ?n) (only_if (rj \<and> j' < ?n)
       (\<Sum>m<dim_sys sys. only_if (r = dot_var sys m \<and> cv = dot_var sys m)
           (mass_jacobian_term sys c qp i' j')))"
    unfolding mass_qp_def Let_def n
  proof (rule ctx_loop_hit[where c = c and p = "\<lambda>s. get_elem_jacobian s r cv i' j'"])
    fix a s' assume "frame s' = frame c"
    from jacobian_mass_dof[OF assms(1,2) this]
    show "get_elem_jacobian (mass_dof sys rj
             (interior_accel s (get_second_order_dot_var sys (u_var sys)) qp)
             (if 1 < dim_sys sys then interior_accel s (get_second_order_dot_var sys (v_var sys)) qp else 0)
             (if 2 < dim_sys sys then interior_accel s (get_second_order_dot_var sys (w_var sys)) qp else 0)
             qp a s') r cv i' j' =
      get_elem_jacobian s' r cv i' j' +
      only_if (a = i') (only_if (rj \<and> j' < ?n)
       (\<Sum>m<dim_sys sys. only_if (r = dot_var sys m \<and> cv = dot_var sys m)
           (mass_jacobian_term sys c qp i' j')))" .
  qed (simp_all add: assms)
  then show ?thesis by (auto simp add: only_if_def)
qed

text \<open>What the mass assembler does to the two accumulators, in closed form.\<close>

lemma mass_residual_residual:
  assumes "1 \<le> dim_sys sys" "dim_sys sys \<le> 3"
  shows "get_elem_residual (snd (mass_residual sys rj c)) r i =
     get_elem_residual c r i +
     (if i < n_dof_indices c (dot_var sys 0)
      then \<Sum>qp<element_qrule_n_points c. \<Sum>m<dim_sys sys.
             if r = dot_var sys m then mass_residual_term sys c qp i m else 0
      else 0)"
proof -
  have "get_elem_residual (fold (mass_qp sys rj) [0..<element_qrule_n_points c] c) r i =
     get_elem_residual c r i +
     (\<Sum>qp<element_qrule_n_points c. only_if (i < n_dof_indices c (dot_var sys 0))
       (\<Sum>m<dim_sys sys. only_if (r = dot_var sys m) (mass_residual_term sys c qp i m)))"
  proof (rule ctx_loop_sum[where c = c and p = "\<lambda>s. get_elem_residual s r i"])
    fix a s assume "frame s = frame c"
    from residual_mass_qp[OF assms this]
    show "get_elem_residual (mass_qp sys rj a s) r i =
      get_elem_residual s r i +
      only_if (i < n_dof_indices c (dot_var sys 0))
       (\<Sum>m<dim_sys sys. only_if (r = dot_var sys m) (mass_residual_term sys c a i m))" .
  qed simp_all
  then show ?thesis
    by (simp add: mass_residual_def Let_def only_if_def del: sum_only_if)
qed

lemma mass_residual_jacobian:
  assumes "1 \<le> dim_sys sys" "dim_sys sys \<le> 3"
  shows "get_elem_jacobian (snd (mass_residual sys rj c)) r cv i j =
     get_elem_jacobian c r cv i j +
     (if rj \<and> i < n_dof_indices c (dot_var sys 0) \<and> j < n_dof_indices c (dot_var sys 0)
      then \<Sum>qp<element_qrule_n_points c. \<Sum>m<dim_sys sys.
             if r = dot_var sys m \<and> cv = dot_var sys m then mass_jacobian_term sys c qp i j else 0
      else 0)"
proof -
  let ?n = "n_dof_indices c (dot_var sys 0)"
  have "get_elem_jacobian (fold (mass_qp sys rj) [0..<element_qrule_n_points c] c) r cv i j =
     get_elem_jacobian c r cv i j +
     (\<Sum>qp<element_qrule_n_points c. only_if (rj \<and> i < ?n \<and> j < ?n)
       (\<Sum>m<dim_sys sys. only_if (r = dot_var sys m \<and> cv = dot_var sys m)
           (mass_jacobian_term sys c qp i j)))"
  proof (rule ctx_loop_sum[where c = c and p = "\<lambda>s. get_elem_jacobian s r cv i j"])
    fix a s assume "frame s = frame c"
    from jacobian_mass_qp[OF assms this]
    show "get_elem_jacobian (mass_qp sys rj a s) r cv i j =
      get_elem_jacobian s r cv i j +
      only_if (rj \<and> i < ?n \<and> j < ?n)
       (\<Sum>m<dim_sys sys. only_if (r = dot_var sys m \<and> cv = dot_var sys m)
           (mass_jacobian_term sys c a i j))" .
  qed simp_all
  then have "get_elem_jacobian (fold (mass_qp sys rj) [0..<element_qrule_n_points c] c) r cv i j =
     get_elem_jacobian c r cv i j +
     only_if (rj \<and> i < ?n \<and> j < ?n)
       (\<Sum>qp<element_qrule_n_points c. \<Sum>m<dim_sys sys.
           only_if (r = dot_var sys m \<and> cv = dot_var sys m) (mass_jacobian_term sys c qp i j))"
    by simp
  then show ?thesis
    unfolding only_if_def mass_residual_def Let_def snd_conv .
qed

text \<open>
  Claim C6. The mass assembler adds \<open>\<rho> accel(m) \<phi>\<^sub>i JxW[qp]\<close> to the rate block of each
  active component \<open>m\<close>, for each quadrature point and test dof. With the Jacobian
  requested it adds \<open>\<rho> \<phi>\<^sub>i \<phi>\<^sub>j JxW[qp] accel_scale\<close> to the blocks that pair a rate
  variable with itself. A block of two different variables is never touched, and no block
  is without the request. What is added to the residual doubles when the density doubles
  and when the acceleration doubles.
\<close>

theorem mass_residual_postcondition:
  assumes "1 \<le> dim_sys sys" "dim_sys sys \<le> 3"
  shows "get_elem_residual (snd (mass_residual sys rj c)) r i =
           get_elem_residual c r i +
           (if i < n_dof_indices c (dot_var sys 0)
            then \<Sum>qp<element_qrule_n_points c. \<Sum>m<dim_sys sys.
                   if r = dot_var sys m
                   then rho sys * interior_accel c (dot_var sys m) qp *
                        get_phi (get_element_fe c (dot_var sys 0)) i qp *
                        get_JxW (get_element_fe c (dot_var sys 0)) qp
                   else 0
            else 0)
       \<and> get_elem_jacobian (snd (mass_residual sys True c)) r cv i j =
           get_elem_jacobian c r cv i j +
           (if i < n_dof_indices c (dot_var sys 0) \<and> j < n_dof_indices c (dot_var sys 0)
            then \<Sum>qp<element_qrule_n_points c. \<Sum>m<dim_sys sys.
                   if r = dot_var sys m \<and> cv = dot_var sys m
                   then rho sys * get_phi (get_element_fe c (dot_var sys 0)) i qp *
                        get_phi (get_element_fe c (dot_var sys 0)) j qp *
                        get_JxW (get_element_fe c (dot_var sys 0)) qp *
                        get_elem_solution_accel_derivative c
                   else 0
            else 0)
       \<and> (r \<noteq> cv \<longrightarrow>
            get_elem_jacobian (snd (mass_residual sys rj c)) r cv = get_elem_jacobian c r cv)
       \<and> get_elem_jacobian (snd (mass_residual sys False c)) = get_elem_jacobian c
       \<and> get_elem_residual (snd (mass_residual (sys\<lparr>rho := 2 * rho sys\<rparr>) rj c)) r i -
           get_elem_residual c r i =
           2 * (get_elem_residual (snd (mass_residual sys rj c)) r i - get_elem_residual c r i)
       \<and> get_elem_residual (snd (mass_residual sys rj
             (c\<lparr>interior_accel := (\<lambda>var qp. 2 * interior_accel c var qp)\<rparr>))) r i -
           get_elem_residual c r i =
           2 * (get_elem_residual (snd (mass_residual sys rj c)) r i - get_elem_residual c r i)"
proof -
  have res: "get_elem_residual (snd (mass_residual sys rj c)) r i =
           get_elem_residual c r i +
           (if i < n_dof_indices c (dot_var sys 0)
            then \<Sum>qp<element_qrule_n_points c. \<Sum>m<dim_sys sys.
                   if r = dot_var sys m
                   then rho sys * interior_accel c (dot_var sys m) qp *
                        get_phi (get_element_fe c (dot_var sys 0)) i qp *
                        get_JxW (get_element_fe c (dot_var sys 0)) qp
                   else 0
            else 0)"
    unfolding mass_residual_residual[OF assms] mass_residual_term_def ..
  have jac: "get_elem_jacobian (snd (mass_residual sys True c)) r cv i j =
           get_elem_jacobian c r cv i j +
           (if i < n_dof_indices c (dot_var sys 0) \<and> j < n_dof_indices c (dot_var sys 0)
            then \<Sum>qp<element_qrule_n_points c. \<Sum>m<dim_sys sys.
                   if r = dot_var sys m \<and> cv = dot_var sys m
                   then rho sys * get_phi (get_element_fe c (dot_var sys 0)) i qp *
                        get_phi (get_element_fe c (dot_var sys 0)) j qp *
                        get_JxW (get_element_fe c (dot_var sys 0)) qp *
                        get_elem_solution_accel_derivative c
                   else 0
            else 0)"
    unfolding mass_residual_jacobian[OF assms] mass_jacobian_term_def by simp
  have cross: "get_elem_jacobian (snd (mass_residual sys rj c)) r cv = get_elem_jacobian c r cv"
    if "r \<noteq> cv"
  proof (intro ext)
    fix i j
    have "(if r = dot_var sys m \<and> cv = dot_var sys m then mass_jacobian_term sys c qp i j else 0) = 0"
      for m qp using that by auto
    then show "get_elem_jacobian (snd (mass_residual sys rj c)) r cv i j = get_elem_jacobian c r cv i j"
      unfolding mass_residual_jacobian[OF assms] by simp
  qed
  have off: "get_elem_jacobian (snd (mass_residual sys False c)) = get_elem_jacobian c"
    by (intro ext) (simp add: mass_residual_jacobian[OF assms])
  let ?sys = "sys\<lparr>rho := 2 * rho sys\<rparr>"
  have d2: "1 \<le> dim_sys ?sys" "dim_sys ?sys \<le> 3" using assms by simp_all
  have t2: "mass_residual_term ?sys c qp i m = 2 * mass_residual_term sys c qp i m" for qp m
    by (simp add: mass_residual_term_def dot_var_def disp_var_def)
  have v2: "dot_var ?sys = dot_var sys"
    by (intro ext) (simp add: dot_var_def disp_var_def)
  have lin_rho: "get_elem_residual (snd (mass_residual ?sys rj c)) r i - get_elem_residual c r i =
           2 * (get_elem_residual (snd (mass_residual sys rj c)) r i - get_elem_residual c r i)"
    unfolding mass_residual_residual[OF assms] mass_residual_residual[OF d2]
    by (simp add: t2 v2 sum_distrib_left if_distrib[of "\<lambda>x. 2 * x"] cong: if_cong)
  let ?c = "c\<lparr>interior_accel := (\<lambda>var qp. 2 * interior_accel c var qp)\<rparr>"
  have t3: "mass_residual_term sys ?c qp i m = 2 * mass_residual_term sys c qp i m" for qp m
    by (simp add: mass_residual_term_def)
  have lin_acc: "get_elem_residual (snd (mass_residual sys rj ?c)) r i - get_elem_residual c r i =
           2 * (get_elem_residual (snd (mass_residual sys rj c)) r i - get_elem_residual c r i)"
    unfolding mass_residual_residual[OF assms]
    by (simp add: t3 sum_distrib_left if_distrib[of "\<lambda>x. 2 * x"] cong: if_cong)
  from res jac cross off lin_rho lin_acc show ?thesis by blast
qed

theorem mass_residual_postcondition_witness:
  "1 \<le> dim_sys example_system \<and> dim_sys example_system \<le> 3 \<and>
   get_elem_residual (snd (mass_residual example_system True (example_context {}))) 1 0 = 6 \<and>
   get_elem_jacobian (snd (mass_residual example_system True (example_context {}))) 1 1 0 0 = 2 \<and>
   (0::nat) \<noteq> 1 \<and>
   get_elem_jacobian (snd (mass_residual example_system True (example_context {}))) 0 1 0 0 = 0 \<and>
   get_elem_residual (snd (mass_residual (example_system\<lparr>rho := 2 * rho example_system\<rparr>) True
      (example_context {}))) 1 0 = 12"
proof -
  have d: "1 \<le> dim_sys example_system" "dim_sys example_system \<le> 3"
    by (simp_all add: example_system_def)
  note t = mass_residual_postcondition[OF d, where c = "example_context {}" and i = 0 and j = 0]
  from t[where r = 1 and cv = 1 and rj = True, THEN conjunct1]
  have a: "get_elem_residual (snd (mass_residual example_system True (example_context {}))) 1 0 = 6"
    by (simp add: example_defs)
  from t[where r = 1 and cv = 1 and rj = True, THEN conjunct2, THEN conjunct1]
  have b: "get_elem_jacobian (snd (mass_residual example_system True (example_context {}))) 1 1 0 0 = 2"
    by (simp add: example_defs)
  from t[where r = 0 and cv = 1 and rj = True, THEN conjunct2, THEN conjunct2, THEN conjunct1]
  have c: "get_elem_jacobian (snd (mass_residual example_system True (example_context {}))) 0 1 0 0 = 0"
    by (simp add: example_context_def)
  from t[where r = 1 and cv = 1 and rj = True, THEN conjunct2, THEN conjunct2, THEN conjunct2,
      THEN conjunct2, THEN conjunct1] a
  have e: "get_elem_residual (snd (mass_residual (example_system\<lparr>rho := 2 * rho example_system\<rparr>) True
      (example_context {}))) 1 0 = 12"
    by (simp add: example_context_def)
  from d a b c e show ?thesis by simp
qed

section \<open>Variable registration and constraint setup: properties\<close>

lemma init_data_variables_fields:
  "u_var (init_data_variables sys) = length (variable_table sys)"
  "v_var (init_data_variables sys) =
     (if dim_sys sys > 1 then Suc (length (variable_table sys)) else length (variable_table sys))"
  "w_var (init_data_variables sys) =
     (if dim_sys sys > 2 then Suc (Suc (length (variable_table sys)))
      else v_var (init_data_variables sys))"
  "dim_sys (init_data_variables sys) = dim_sys sys"
  "dirichlet_boundaries (init_data_variables sys) = dirichlet_boundaries sys"
  "boundary_ids (init_data_variables sys) = boundary_ids sys"
  "remote_boundary_ids (init_data_variables sys) = remote_boundary_ids sys"
  "fixed_u_boundary_id (init_data_variables sys) = fixed_u_boundary_id sys"
  "fixed_v_boundary_id (init_data_variables sys) = fixed_v_boundary_id sys"
  "node_boundary_id (init_data_variables sys) = node_boundary_id sys"
  "edge_boundary_id (init_data_variables sys) = edge_boundary_id sys"
  by (simp_all add: init_data_variables_def add_variable_def time_evolving_def Let_def)

lemma init_data_dirichlet_fields:
  "u_var (init_data_dirichlet s) = u_var s"
  "v_var (init_data_dirichlet s) = v_var s"
  "w_var (init_data_dirichlet s) = w_var s"
  "dim_sys (init_data_dirichlet s) = dim_sys s"
  by (simp_all add: init_data_dirichlet_def add_dirichlet_boundary_def Let_def)

lemma init_data_fields:
  "u_var (init_data sys) = length (variable_table sys)"
  "v_var (init_data sys) =
     (if dim_sys sys > 1 then Suc (length (variable_table sys)) else length (variable_table sys))"
  "w_var (init_data sys) =
     (if dim_sys sys > 2 then Suc (Suc (length (variable_table sys))) else v_var (init_data sys))"
  "dim_sys (init_data sys) = dim_sys sys"
  by (simp_all add: init_data_def FEMSystem_init_data_def init_data_dirichlet_fields
      init_data_variables_fields)

text \<open>
  Claim C5. After \<open>init_data\<close>, in dimension 1 the V variable and the W variable are the
  U variable, and in every dimension below 3 the W variable is the V variable.
\<close>

theorem init_data_variable_aliasing:
  "(dim_sys sys = 1 \<longrightarrow>
      v_var (init_data sys) = u_var (init_data sys) \<and> w_var (init_data sys) = u_var (init_data sys))
   \<and> (dim_sys sys < 3 \<longrightarrow> w_var (init_data sys) = v_var (init_data sys))"
  by (simp add: init_data_fields)

theorem init_data_variable_aliasing_witness:
  "dim_sys (fresh_system 1 {}) = 1 \<and>
   v_var (init_data (fresh_system 1 {})) = u_var (init_data (fresh_system 1 {})) \<and>
   w_var (init_data (fresh_system 1 {})) = u_var (init_data (fresh_system 1 {})) \<and>
   dim_sys (fresh_system 2 {}) < 3 \<and>
   w_var (init_data (fresh_system 2 {})) = v_var (init_data (fresh_system 2 {})) \<and>
   u_var (init_data (fresh_system 2 {})) = 0 \<and> v_var (init_data (fresh_system 2 {})) = 1"
proof -
  have a: "dim_sys (fresh_system 1 {}) = 1" "dim_sys (fresh_system 2 {}) < 3"
    by (simp_all add: fresh_system_def)
  have b: "u_var (init_data (fresh_system 2 {})) = 0 \<and> v_var (init_data (fresh_system 2 {})) = 1"
    by (simp add: init_data_fields) (simp add: fresh_system_def)
  from init_data_variable_aliasing[of "fresh_system 1 {}"]
    init_data_variable_aliasing[of "fresh_system 2 {}"] a b
  show ?thesis by simp
qed

text \<open>The Dirichlet boundaries that \<open>init_data\<close> registers, in order.\<close>

lemma init_data_dirichlet_boundaries:
  "dirichlet_boundaries (init_data sys) =
     dirichlet_boundaries sys @
     [\<lparr>bc_ids = {b. b \<in> boundary_ids sys \<union> remote_boundary_ids sys \<and>
                   (b = boundary_id_min_x \<or> b = node_boundary_id sys \<or> b = edge_boundary_id sys)},
       bc_variables = [u_var (init_data sys)] @
          (if dim_sys sys > 1 then [v_var (init_data sys)] else []) @
          (if dim_sys sys > 2 then [w_var (init_data sys)] else []),
       bc_f = ZeroFunction, bc_f_system_indexing = LOCAL_VARIABLE_ORDER\<rparr>] @
     (if fixed_u_boundary_id sys \<in> boundary_ids sys \<union> remote_boundary_ids sys
      then [\<lparr>bc_ids = {fixed_u_boundary_id sys}, bc_variables = [u_var (init_data sys)],
             bc_f = ZeroFunction, bc_f_system_indexing = LOCAL_VARIABLE_ORDER\<rparr>]
      else []) @
     (if fixed_v_boundary_id sys \<in> boundary_ids sys \<union> remote_boundary_ids sys
      then [\<lparr>bc_ids = {fixed_v_boundary_id sys}, bc_variables = [v_var (init_data sys)],
             bc_f = ZeroFunction, bc_f_system_indexing = LOCAL_VARIABLE_ORDER\<rparr>]
      else [])"
proof -
  have "dirichlet_boundaries (init_data_dirichlet s) =
     dirichlet_boundaries s @
     [\<lparr>bc_ids = {b. b \<in> boundary_ids s \<union> remote_boundary_ids s \<and>
                   (b = boundary_id_min_x \<or> b = node_boundary_id s \<or> b = edge_boundary_id s)},
       bc_variables = [u_var s] @ (if dim_sys s > 1 then [v_var s] else []) @
          (if dim_sys s > 2 then [w_var s] else []),
       bc_f = ZeroFunction, bc_f_system_indexing = LOCAL_VARIABLE_ORDER\<rparr>] @
     (if fixed_u_boundary_id s \<in> boundary_ids s \<union> remote_boundary_ids s
      then [\<lparr>bc_ids = {fixed_u_boundary_id s}, bc_variables = [u_var s],
             bc_f = ZeroFunction, bc_f_system_indexing = LOCAL_VARIABLE_ORDER\<rparr>]
      else []) @
     (if fixed_v_boundary_id s \<in> boundary_ids s \<union> remote_boundary_ids s
      then [\<lparr>bc_ids = {fixed_v_boundary_id s}, bc_variables = [v_var s],
             bc_f = ZeroFunction, bc_f_system_indexing = LOCAL_VARIABLE_ORDER\<rparr>]
      else [])" for s
  proof -
    have ids: "insert_if_present (boundary_ids s \<union> remote_boundary_ids s) (edge_boundary_id s)
              (insert_if_present (boundary_ids s \<union> remote_boundary_ids s) (node_boundary_id s)
                (insert_if_present (boundary_ids s \<union> remote_boundary_ids s) boundary_id_min_x {})) =
          {b. b \<in> boundary_ids s \<union> remote_boundary_ids s \<and>
                   (b = boundary_id_min_x \<or> b = node_boundary_id s \<or> b = edge_boundary_id s)}"
      by (auto simp add: insert_if_present_def)
    have one: "insert_if_present A x {} = (if x \<in> A then {x} else {})" for A x
      by (simp add: insert_if_present_def)
    show ?thesis
      unfolding init_data_dirichlet_def Let_def set_union_def
      unfolding ids
      unfolding one
      by (simp add: add_dirichlet_boundary_def)
  qed
  then show ?thesis
    by (simp add: init_data_def FEMSystem_init_data_def init_data_variables_fields
        init_data_dirichlet_fields)
qed

text \<open>
  Claim C9. On a mesh with no boundary id at all, \<open>init_data\<close> still registers one
  Dirichlet boundary: the first one, over the displacement variables, with an empty set
  of boundary ids. The two boundaries for a single variable are guarded by a test for an
  empty id set, and are not registered; the first one has no such guard.
\<close>

theorem init_data_empty_boundary_ids:
  "boundary_ids (fresh_system 3 {}) \<union> remote_boundary_ids (fresh_system 3 {}) = {} \<and>
   dirichlet_boundaries (fresh_system 3 {}) = [] \<and>
   dirichlet_boundaries (init_data (fresh_system 3 {})) =
     [\<lparr>bc_ids = {}, bc_variables = [0, 1, 2], bc_f = ZeroFunction,
       bc_f_system_indexing = LOCAL_VARIABLE_ORDER\<rparr>]"
  unfolding init_data_dirichlet_boundaries init_data_fields
  by (simp add: fresh_system_def)

end
